theory Spec2Isabelle
  imports Complex_Main "HOL-Library.Word"
begin

section \<open>SceneManager.cpp: data model\<close>

text \<open>
  The embedding follows \<^verbatim>\<open>7-1 Project/Source/SceneManager.cpp\<close>. The C++ \<^verbatim>\<open>float\<close>
  is idealised as \<^typ>\<open>real\<close>: the literals of the source are exact decimal
  fractions here and arithmetic does not round.
\<close>

subsection \<open>GLM vectors and matrices\<close>

datatype vec2 = Vec2 real real
datatype vec3 = Vec3 real real real
datatype vec4 = Vec4 real real real real

text \<open>A \<^verbatim>\<open>glm::mat4\<close> is column-major: \<open>Mat4 c0 c1 c2 c3\<close> holds its four columns.\<close>

datatype mat4 = Mat4 vec4 vec4 vec4 vec4

fun vec4_add :: "vec4 \<Rightarrow> vec4 \<Rightarrow> vec4" where
  "vec4_add (Vec4 a b c d) (Vec4 a' b' c' d') = Vec4 (a + a') (b + b') (c + c') (d + d')"

fun vec4_smult :: "real \<Rightarrow> vec4 \<Rightarrow> vec4" where
  "vec4_smult k (Vec4 a b c d) = Vec4 (k * a) (k * b) (k * c) (k * d)"

text \<open>\<^verbatim>\<open>operator*(mat4, vec4)\<close>: the linear combination of the columns.\<close>

fun mat4_vec :: "mat4 \<Rightarrow> vec4 \<Rightarrow> vec4" where
  "mat4_vec (Mat4 c0 c1 c2 c3) (Vec4 x y z w) =
     vec4_add (vec4_add (vec4_add (vec4_smult x c0) (vec4_smult y c1)) (vec4_smult z c2))
       (vec4_smult w c3)"

text \<open>\<^verbatim>\<open>operator*(mat4, mat4)\<close>: column \<open>j\<close> of the product is the left factor applied
  to column \<open>j\<close> of the right factor.\<close>

fun mat4_mul :: "mat4 \<Rightarrow> mat4 \<Rightarrow> mat4" where
  "mat4_mul m (Mat4 c0 c1 c2 c3) =
     Mat4 (mat4_vec m c0) (mat4_vec m c1) (mat4_vec m c2) (mat4_vec m c3)"

definition glm_radians :: "real \<Rightarrow> real" where
  \<comment> \<open>Modelled from the spec: \<^verbatim>\<open>glm::radians\<close> belongs to the GLM library, which is not
      among the sources; the spec takes rotation angles in degrees.\<close>
  "glm_radians degrees = degrees * pi / 180"

definition glm_scale :: "vec3 \<Rightarrow> mat4" where
  \<comment> \<open>Modelled from the spec: \<^verbatim>\<open>glm::scale(v)\<close> of the GLM library (not among the
      sources), the 4x4 scaling matrix of the spec's \<open>Scale\<close> factor.\<close>
  "glm_scale v = (case v of Vec3 x y z \<Rightarrow>
     Mat4 (Vec4 x 0 0 0) (Vec4 0 y 0 0) (Vec4 0 0 z 0) (Vec4 0 0 0 1))"

definition glm_translate :: "vec3 \<Rightarrow> mat4" where
  \<comment> \<open>Modelled from the spec: \<^verbatim>\<open>glm::translate(v)\<close> of the GLM library (not among the
      sources), the 4x4 translation matrix of the spec's \<open>Translate\<close> factor.\<close>
  "glm_translate v = (case v of Vec3 x y z \<Rightarrow>
     Mat4 (Vec4 1 0 0 0) (Vec4 0 1 0 0) (Vec4 0 0 1 0) (Vec4 x y z 1))"

definition glm_normalize :: "vec3 \<Rightarrow> vec3" where
  \<comment> \<open>Modelled from the spec: \<^verbatim>\<open>glm::normalize\<close> of the GLM library, used by
      \<^verbatim>\<open>glm::rotate\<close> on its axis.\<close>
  "glm_normalize v = (case v of Vec3 x y z \<Rightarrow>
     (let n = sqrt (x * x + y * y + z * z) in Vec3 (x / n) (y / n) (z / n)))"

definition glm_rotate :: "real \<Rightarrow> vec3 \<Rightarrow> mat4" where
  \<comment> \<open>Modelled from the spec: \<^verbatim>\<open>glm::rotate(angle, axis)\<close> of the GLM library (not among
      the sources), the right-handed axis-angle rotation the spec names; the entries are
      those of the library's axis-angle formula, \<open>R[col][row]\<close>.\<close>
  "glm_rotate angle v =
     (let c = cos angle; s = sin angle in
      case glm_normalize v of Vec3 ax ay az \<Rightarrow>
        (let tx = (1 - c) * ax; ty = (1 - c) * ay; tz = (1 - c) * az in
         Mat4 (Vec4 (c + tx * ax) (tx * ay + s * az) (tx * az - s * ay) 0)
              (Vec4 (ty * ax - s * az) (c + ty * ay) (ty * az + s * ax) 0)
              (Vec4 (tz * ax + s * ay) (tz * ay - s * ax) (c + tz * az) 0)
              (Vec4 0 0 0 1)))"

subsection \<open>The scene manager's state\<close>

text \<open>
  \<^verbatim>\<open>TEXTURE_INFO\<close>: the \<^verbatim>\<open>ID\<close> member is the \<^verbatim>\<open>GLuint\<close> that
  \<^verbatim>\<open>glGenTextures(1, &m_textureIDs[i].ID)\<close> writes, a 32-bit unsigned value; the
  constructor's \<^verbatim>\<open>ID = -1\<close> stores the all-ones word.
\<close>

record TEXTURE_INFO =
  tag :: string
  ID :: "32 word"

text \<open>\<^verbatim>\<open>OBJECT_MATERIAL\<close>; its \<^verbatim>\<open>tag\<close> member is \<open>material_tag\<close> here (the name
  \<open>tag\<close> is taken by \<^verbatim>\<open>TEXTURE_INFO\<close>).\<close>

record OBJECT_MATERIAL =
  ambientColor :: vec3
  ambientStrength :: real
  diffuseColor :: vec3
  specularColor :: vec3
  shininess :: real
  material_tag :: string

text \<open>The value a shader uniform holds, tagged by the \<^verbatim>\<open>ShaderManager\<close> setter that
  wrote it.\<close>

datatype uniform =
    IntValue int
  | BoolValue bool
  | FloatValue real
  | Vec2Value vec2
  | Vec3Value vec3
  | Vec4Value vec4
  | Mat4Value mat4
  | Sampler2DValue int

text \<open>The primitive a draw call of the mesh library (\<^verbatim>\<open>ShapeMeshes\<close>) asks for;
  \<^verbatim>\<open>DrawCylinderMesh\<close> carries its three flags.\<close>

datatype mesh_draw =
    Box
  | Plane
  | Cylinder bool bool bool
  | HalfSphere
  | Torus

datatype ShaderManager_ptr = NULL | ShaderManager_object

text \<open>
  The members of \<^verbatim>\<open>SceneManager\<close>, and the two objects it talks to: \<open>uniforms\<close> is the
  uniform store of the shader program behind \<^verbatim>\<open>m_pShaderManager\<close> (it exists whether or
  not the pointer is set), \<open>draws\<close> the draw requests \<^verbatim>\<open>m_basicMeshes\<close> has received,
  oldest first, each with the uniforms in force when it was issued (what the shader
  program renders the primitive with).
\<close>

record SceneManager =
  m_pShaderManager :: ShaderManager_ptr
  m_textureIDs :: "TEXTURE_INFO list"
  m_loadedTextures :: int
  m_objectMaterials :: "OBJECT_MATERIAL list"
  uniforms :: "string \<rightharpoonup> uniform"
  draws :: "(mesh_draw \<times> (string \<rightharpoonup> uniform)) list"

text \<open>What C++ leaves undefined is an error value of the model.\<close>

datatype error = NullPointer | OutOfBounds

definition g_ModelName :: string where "g_ModelName = ''model''"
definition g_ColorValueName :: string where "g_ColorValueName = ''objectColor''"
definition g_TextureValueName :: string where "g_TextureValueName = ''objectTexture''"
definition g_UseTextureName :: string where "g_UseTextureName = ''bUseTexture''"
definition g_UseLightingName :: string where "g_UseLightingName = ''bUseLighting''"

text \<open>The constructor: sixteen slots tagged \<^verbatim>\<open>"/0"\<close> with \<^verbatim>\<open>ID = -1\<close>, no texture
  loaded, no material defined.\<close>

definition SceneManager_new :: "ShaderManager_ptr \<Rightarrow> (string \<rightharpoonup> uniform) \<Rightarrow> SceneManager" where
  "SceneManager_new pShaderManager us =
     \<lparr> m_pShaderManager = pShaderManager,
       m_textureIDs = replicate 16 \<lparr> tag = ''/0'', ID = - 1 \<rparr>,
       m_loadedTextures = 0,
       m_objectMaterials = [],
       uniforms = us,
       draws = [] \<rparr>"

text \<open>The registry's representation invariant: the array has its sixteen slots and the
  count of loaded textures lies within it.\<close>

definition registry_ok :: "SceneManager \<Rightarrow> bool" where
  "registry_ok s \<longleftrightarrow>
     length (m_textureIDs s) = 16 \<and> 0 \<le> m_loadedTextures s \<and> m_loadedTextures s \<le> 16"

section \<open>Texture registry\<close>

text \<open>The result of \<^verbatim>\<open>stbi_load\<close>: a null pointer (\<open>None\<close>) or a decoded image with
  its dimensions and channel count.\<close>

record image =
  width :: int
  height :: int
  colorChannels :: int

text \<open>
  \<^verbatim>\<open>CreateGLTexture(filename, tag)\<close>. The two external results are arguments:
  \<open>decoded\<close> is what \<^verbatim>\<open>stbi_load(filename, ...)\<close> returns and \<open>textureID\<close> the name
  \<^verbatim>\<open>glGenTextures\<close> stores. The branches for 3 and for 4 channels differ only in the
  upload call and both go on to register the texture; any other count returns
  \<^verbatim>\<open>false\<close> at once. The store into \<^verbatim>\<open>m_textureIDs[m_loadedTextures]\<close> has no
  bounds check in the source; outside the array it is \<open>Inl OutOfBounds\<close>.
\<close>

definition CreateGLTexture ::
  "image option \<Rightarrow> 32 word \<Rightarrow> string \<Rightarrow> SceneManager \<Rightarrow> error + (bool \<times> SceneManager)" where
  "CreateGLTexture decoded textureID tg s =
     (case decoded of
        Some img \<Rightarrow>
          if colorChannels img = 3 \<or> colorChannels img = 4 then
            (let n = m_loadedTextures s in
             if 0 \<le> n \<and> n < int (length (m_textureIDs s)) then
               Inr (True,
                 s\<lparr> m_textureIDs :=
                      (m_textureIDs s)[nat n := \<lparr> tag = tg, ID = textureID \<rparr>],
                    m_loadedTextures := n + 1 \<rparr>)
             else Inl OutOfBounds)
          else Inr (False, s)
      | None \<Rightarrow> Inr (False, s))"


text \<open>
  \<^verbatim>\<open>DestroyGLTextures()\<close>: for every loaded slot the source calls
  \<^verbatim>\<open>glGenTextures(1, &m_textureIDs[i].ID)\<close>, which stores a generated name in the
  slot's \<^verbatim>\<open>ID\<close>; \<open>gen i\<close> is the name the call for slot \<open>i\<close> stores. Neither the
  tags nor \<^verbatim>\<open>m_loadedTextures\<close> are touched.
\<close>

function DestroyGLTextures_loop ::
  "(int \<Rightarrow> 32 word) \<Rightarrow> int \<Rightarrow> SceneManager \<Rightarrow> error + SceneManager" where
  "DestroyGLTextures_loop gen i s =
     (if i < m_loadedTextures s then
        (if 0 \<le> i \<and> i < int (length (m_textureIDs s)) then
           DestroyGLTextures_loop gen (i + 1)
             (s\<lparr> m_textureIDs :=
                   (m_textureIDs s)[nat i := (m_textureIDs s ! nat i)\<lparr> ID := gen i \<rparr>] \<rparr>)
         else Inl OutOfBounds)
      else Inr s)"
  by pat_completeness auto
termination
  by (relation "measure (\<lambda>(gen, i, s). nat (m_loadedTextures s - i))") auto

definition DestroyGLTextures :: "(int \<Rightarrow> 32 word) \<Rightarrow> SceneManager \<Rightarrow> error + SceneManager" where
  "DestroyGLTextures gen s = DestroyGLTextures_loop gen 0 s"

text \<open>
  \<^verbatim>\<open>FindTextureID(tag)\<close>: the \<^verbatim>\<open>while\<close> loop with its three locals. The result is
  an \<^verbatim>\<open>int\<close>, so the stored \<^verbatim>\<open>GLuint\<close> is read as a signed value. A read of
  \<^verbatim>\<open>m_textureIDs[index]\<close> outside the array is \<open>Inl OutOfBounds\<close>.
\<close>

function FindTextureID_loop ::
  "SceneManager \<Rightarrow> string \<Rightarrow> int \<Rightarrow> int \<Rightarrow> bool \<Rightarrow> error + int" where
  "FindTextureID_loop s tg textureID index bFound =
     (if index < m_loadedTextures s \<and> bFound = False then
        (if 0 \<le> index \<and> index < int (length (m_textureIDs s)) then
           (if tag (m_textureIDs s ! nat index) = tg then
              FindTextureID_loop s tg (sint (ID (m_textureIDs s ! nat index))) index True
            else FindTextureID_loop s tg textureID (index + 1) bFound)
         else Inl OutOfBounds)
      else Inr textureID)"
  by pat_completeness auto
termination
  by (relation "measure (\<lambda>(s, tg, textureID, index, bFound).
        if bFound then 0 else 1 + nat (m_loadedTextures s - index))") auto

definition FindTextureID :: "SceneManager \<Rightarrow> string \<Rightarrow> error + int" where
  "FindTextureID s tg = FindTextureID_loop s tg (- 1) 0 False"

text \<open>\<^verbatim>\<open>FindTextureSlot(tag)\<close>: the same loop, keeping the index instead of the
  handle.\<close>

function FindTextureSlot_loop ::
  "SceneManager \<Rightarrow> string \<Rightarrow> int \<Rightarrow> int \<Rightarrow> bool \<Rightarrow> error + int" where
  "FindTextureSlot_loop s tg textureSlot index bFound =
     (if index < m_loadedTextures s \<and> bFound = False then
        (if 0 \<le> index \<and> index < int (length (m_textureIDs s)) then
           (if tag (m_textureIDs s ! nat index) = tg then
              FindTextureSlot_loop s tg index index True
            else FindTextureSlot_loop s tg textureSlot (index + 1) bFound)
         else Inl OutOfBounds)
      else Inr textureSlot)"
  by pat_completeness auto
termination
  by (relation "measure (\<lambda>(s, tg, textureSlot, index, bFound).
        if bFound then 0 else 1 + nat (m_loadedTextures s - index))") auto

definition FindTextureSlot :: "SceneManager \<Rightarrow> string \<Rightarrow> error + int" where
  "FindTextureSlot s tg = FindTextureSlot_loop s tg (- 1) 0 False"


section \<open>Material registry\<close>

text \<open>
  \<^verbatim>\<open>FindMaterial(tag, material)\<close>. The loop copies the five lighting members of the
  first preset whose tag matches into the caller's \<^verbatim>\<open>material\<close> (not its tag); the
  function's result is \<^verbatim>\<open>false\<close> for an empty list and \<^verbatim>\<open>true\<close> otherwise,
  whatever \<^verbatim>\<open>bFound\<close> holds when the loop ends.
\<close>

function FindMaterial_loop ::
  "OBJECT_MATERIAL list \<Rightarrow> string \<Rightarrow> OBJECT_MATERIAL \<Rightarrow> nat \<Rightarrow> bool \<Rightarrow> OBJECT_MATERIAL" where
  "FindMaterial_loop ms tg material index bFound =
     (if index < length ms \<and> bFound = False then
        (if material_tag (ms ! index) = tg then
           FindMaterial_loop ms tg
             (material\<lparr> ambientColor := ambientColor (ms ! index),
                        ambientStrength := ambientStrength (ms ! index),
                        diffuseColor := diffuseColor (ms ! index),
                        specularColor := specularColor (ms ! index),
                        shininess := shininess (ms ! index) \<rparr>)
             index True
         else FindMaterial_loop ms tg material (index + 1) bFound)
      else material)"
  by pat_completeness auto
termination
  by (relation "measure (\<lambda>(ms, tg, material, index, bFound).
        if bFound then 0 else 1 + (length ms - index))") auto

definition FindMaterial ::
  "string \<Rightarrow> OBJECT_MATERIAL \<Rightarrow> SceneManager \<Rightarrow> bool \<times> OBJECT_MATERIAL" where
  "FindMaterial tg material s =
     (if length (m_objectMaterials s) = 0 then (False, material)
      else (True, FindMaterial_loop (m_objectMaterials s) tg material 0 False))"

section \<open>Transform and shader bridge\<close>

text \<open>
  Modelled from the spec: the \<^verbatim>\<open>ShaderManager\<close> class is not among the sources; the
  spec describes its members as shader-uniform writers by name, so each setter stores
  its value under the uniform's name.
\<close>

definition setUniform :: "string \<Rightarrow> uniform \<Rightarrow> SceneManager \<Rightarrow> SceneManager" where
  "setUniform name v s = s\<lparr> uniforms := (uniforms s)(name \<mapsto> v) \<rparr>"

definition setMat4Value :: "string \<Rightarrow> mat4 \<Rightarrow> SceneManager \<Rightarrow> SceneManager" where
  "setMat4Value name m = setUniform name (Mat4Value m)"

definition setIntValue :: "string \<Rightarrow> int \<Rightarrow> SceneManager \<Rightarrow> SceneManager" where
  "setIntValue name i = setUniform name (IntValue i)"

definition setFloatValue :: "string \<Rightarrow> real \<Rightarrow> SceneManager \<Rightarrow> SceneManager" where
  "setFloatValue name x = setUniform name (FloatValue x)"

definition setVec2Value :: "string \<Rightarrow> vec2 \<Rightarrow> SceneManager \<Rightarrow> SceneManager" where
  "setVec2Value name v = setUniform name (Vec2Value v)"

definition setVec3Value :: "string \<Rightarrow> vec3 \<Rightarrow> SceneManager \<Rightarrow> SceneManager" where
  "setVec3Value name v = setUniform name (Vec3Value v)"

definition setVec4Value :: "string \<Rightarrow> vec4 \<Rightarrow> SceneManager \<Rightarrow> SceneManager" where
  "setVec4Value name v = setUniform name (Vec4Value v)"

definition setSampler2DValue :: "string \<Rightarrow> int \<Rightarrow> SceneManager \<Rightarrow> SceneManager" where
  "setSampler2DValue name i = setUniform name (Sampler2DValue i)"

text \<open>\<^verbatim>\<open>SetTransformations\<close>: the product is evaluated left to right, as C++ parses
  \<^verbatim>\<open>translation * rotationX * rotationY * rotationZ * scale\<close>.\<close>

definition SetTransformations ::
  "vec3 \<Rightarrow> real \<Rightarrow> real \<Rightarrow> real \<Rightarrow> vec3 \<Rightarrow> SceneManager \<Rightarrow> SceneManager" where
  "SetTransformations scaleXYZ XrotationDegrees YrotationDegrees ZrotationDegrees positionXYZ s =
     (let scale = glm_scale scaleXYZ;
          rotationX = glm_rotate (glm_radians XrotationDegrees) (Vec3 1 0 0);
          rotationY = glm_rotate (glm_radians YrotationDegrees) (Vec3 0 1 0);
          rotationZ = glm_rotate (glm_radians ZrotationDegrees) (Vec3 0 0 1);
          translation = glm_translate positionXYZ;
          modelView =
            mat4_mul (mat4_mul (mat4_mul (mat4_mul translation rotationX) rotationY) rotationZ)
              scale
      in if m_pShaderManager s \<noteq> NULL then setMat4Value g_ModelName modelView s else s)"

text \<open>\<^verbatim>\<open>SetShaderColor\<close>: \<^verbatim>\<open>setIntValue(g_UseTextureName, false)\<close> passes the
  \<^verbatim>\<open>bool\<close> as the integer 0.\<close>

definition SetShaderColor :: "real \<Rightarrow> real \<Rightarrow> real \<Rightarrow> real \<Rightarrow> SceneManager \<Rightarrow> SceneManager" where
  "SetShaderColor redColorValue greenColorValue blueColorValue alphaValue s =
     (let currentColor = Vec4 redColorValue greenColorValue blueColorValue alphaValue
      in if m_pShaderManager s \<noteq> NULL then
           setVec4Value g_ColorValueName currentColor
             (setIntValue g_UseTextureName (of_bool False) s)
         else s)"

definition SetShaderTexture :: "string \<Rightarrow> SceneManager \<Rightarrow> error + SceneManager" where
  "SetShaderTexture textureTag s =
     (if m_pShaderManager s \<noteq> NULL then
        (let s1 = setIntValue g_UseTextureName (of_bool True) s in
         case FindTextureSlot s1 textureTag of
           Inl e \<Rightarrow> Inl e
         | Inr textureID \<Rightarrow> Inr (setSampler2DValue g_TextureValueName textureID s1))
      else Inr s)"

definition SetTextureUVScale :: "real \<Rightarrow> real \<Rightarrow> SceneManager \<Rightarrow> SceneManager" where
  "SetTextureUVScale u v s =
     (if m_pShaderManager s \<noteq> NULL then setVec2Value ''UVscale'' (Vec2 u v) s else s)"

text \<open>
  \<^verbatim>\<open>SetShaderMaterial\<close>. The local \<^verbatim>\<open>OBJECT_MATERIAL material;\<close> is declared without
  an initialiser: \<open>uninit\<close> stands for whatever it holds before \<^verbatim>\<open>FindMaterial\<close>
  runs. The five writes go through \<^verbatim>\<open>m_pShaderManager\<close> without a null test; on a
  null pointer they are \<open>Inl NullPointer\<close>.
\<close>

definition SetShaderMaterial ::
  "OBJECT_MATERIAL \<Rightarrow> string \<Rightarrow> SceneManager \<Rightarrow> error + SceneManager" where
  "SetShaderMaterial uninit materialTag s =
     (if length (m_objectMaterials s) > 0 then
        (case FindMaterial materialTag uninit s of
           (bReturn, material) \<Rightarrow>
             if bReturn = True then
               (if m_pShaderManager s = NULL then Inl NullPointer
                else
                  (let s1 = setVec3Value ''material.ambientColor'' (ambientColor material) s;
                       s2 = setFloatValue ''material.ambientStrength'' (ambientStrength material) s1;
                       s3 = setVec3Value ''material.diffuseColor'' (diffuseColor material) s2;
                       s4 = setVec3Value ''material.specularColor'' (specularColor material) s3;
                       s5 = setFloatValue ''material.shininess'' (shininess material) s4
                   in Inr s5))
             else Inr s)
      else Inr s)"

section \<open>Scene preparation and rendering\<close>

text \<open>\<^verbatim>\<open>DefineObjectMaterials\<close>: five \<^verbatim>\<open>push_back\<close> calls.\<close>

definition DefineObjectMaterials :: "SceneManager \<Rightarrow> SceneManager" where
  "DefineObjectMaterials s =
     (let goldMaterial =
            \<lparr> ambientColor = Vec3 0.2 0.2 0.2, ambientStrength = 0.3,
              diffuseColor = Vec3 0.2 0.2 0.2, specularColor = Vec3 0.5 0.5 0.5,
              shininess = 22.0, material_tag = ''metal'' \<rparr>;
          woodMaterial =
            \<lparr> ambientColor = Vec3 0.1 0.1 0.1, ambientStrength = 0.2,
              diffuseColor = Vec3 0.3 0.3 0.3, specularColor = Vec3 0.1 0.1 0.1,
              shininess = 0.3, material_tag = ''wood'' \<rparr>;
          glassMaterial =
            \<lparr> ambientColor = Vec3 0.4 0.4 0.4, ambientStrength = 0.3,
              diffuseColor = Vec3 0.3 0.3 0.3, specularColor = Vec3 0.6 0.6 0.6,
              shininess = 85.0, material_tag = ''glass'' \<rparr>;
          cheeseMaterial =
            \<lparr> ambientColor = Vec3 0.1 0.1 0.1, ambientStrength = 0.2,
              diffuseColor = Vec3 0.5 0.5 0.5, specularColor = Vec3 0.1 0.1 0.1,
              shininess = 0.3, material_tag = ''cheese'' \<rparr>;
          backdropMaterial =
            \<lparr> ambientColor = Vec3 0.6 0.6 0.6, ambientStrength = 3.0,
              diffuseColor = Vec3 0.6 0.5 0.1, specularColor = Vec3 0.0 0.0 0.0,
              shininess = 0.0, material_tag = ''backdrop'' \<rparr>
      in s\<lparr> m_objectMaterials :=
              m_objectMaterials s
                @ [goldMaterial, woodMaterial, glassMaterial, cheeseMaterial, backdropMaterial] \<rparr>)"

text \<open>
  Modelled from the spec: the \<^verbatim>\<open>ShapeMeshes\<close> class is not among the sources; a draw
  call is a request to the mesh primitive library, recorded in the order it is issued
  together with the uniforms the shader program holds at that moment.
\<close>

definition DrawBoxMesh :: "SceneManager \<Rightarrow> SceneManager" where
  "DrawBoxMesh s = s\<lparr> draws := draws s @ [(Box, uniforms s)] \<rparr>"

definition DrawPlaneMesh :: "SceneManager \<Rightarrow> SceneManager" where
  "DrawPlaneMesh s = s\<lparr> draws := draws s @ [(Plane, uniforms s)] \<rparr>"

definition DrawCylinderMesh :: "bool \<Rightarrow> bool \<Rightarrow> bool \<Rightarrow> SceneManager \<Rightarrow> SceneManager" where
  "DrawCylinderMesh a b c s = s\<lparr> draws := draws s @ [(Cylinder a b c, uniforms s)] \<rparr>"

definition DrawHalfSphereMesh :: "SceneManager \<Rightarrow> SceneManager" where
  "DrawHalfSphereMesh s = s\<lparr> draws := draws s @ [(HalfSphere, uniforms s)] \<rparr>"

definition DrawTorusMesh :: "SceneManager \<Rightarrow> SceneManager" where
  "DrawTorusMesh s = s\<lparr> draws := draws s @ [(Torus, uniforms s)] \<rparr>"

text \<open>A function body as its statements in order: \<open>do_all\<close> runs them one after the
  other and stops at the first that fails; \<open>ok\<close> wraps a statement that cannot fail.\<close>

fun do_all ::
  "(SceneManager \<Rightarrow> error + SceneManager) list \<Rightarrow> SceneManager \<Rightarrow> error + SceneManager" where
  "do_all [] s = Inr s"
| "do_all (f # fs) s = (case f s of Inl e \<Rightarrow> Inl e | Inr s' \<Rightarrow> do_all fs s')"

definition ok :: "(SceneManager \<Rightarrow> SceneManager) \<Rightarrow> SceneManager \<Rightarrow> error + SceneManager" where
  "ok f s = Inr (f s)"

text \<open>The render routines. The locals \<^verbatim>\<open>scaleXYZ\<close>, \<^verbatim>\<open>XrotationDegrees\<close>,
  \<^verbatim>\<open>YrotationDegrees\<close>, \<^verbatim>\<open>ZrotationDegrees\<close> and \<^verbatim>\<open>positionXYZ\<close> are written at
  their use, in the argument order of \<^verbatim>\<open>SetTransformations\<close>.\<close>

definition RenderBook :: "OBJECT_MATERIAL \<Rightarrow> SceneManager \<Rightarrow> error + SceneManager" where
  "RenderBook uninit = do_all
     [ok (SetTransformations (Vec3 2.2 0.08 1.5) 0.0 (- 12.0) 0.0 (Vec3 (- 1.2) 0.59 0.3)),
      ok (SetShaderColor 1.0 0.5 0.1 1.0),
      SetShaderMaterial uninit ''wood'',
      ok DrawBoxMesh,
      ok (SetTransformations (Vec3 0.08 0.08 1.5) 0.0 (- 12.0) 0.0 (Vec3 (- 2.3) 0.59 0.3)),
      ok (SetShaderColor 0.9 0.4 0.05 1.0),
      SetShaderMaterial uninit ''wood'',
      ok DrawBoxMesh,
      ok (SetTransformations (Vec3 2.15 0.06 1.45) 0.0 (- 12.0) 0.0 (Vec3 (- 1.2) 0.57 0.3)),
      ok (SetShaderColor 0.95 0.95 0.9 1.0),
      SetShaderMaterial uninit ''wood'',
      ok DrawBoxMesh]"

definition RenderTable :: "OBJECT_MATERIAL \<Rightarrow> SceneManager \<Rightarrow> error + SceneManager" where
  "RenderTable uninit = do_all
     [ok (SetTransformations (Vec3 20.0 0.6 8.0) 0.0 0.0 0.0 (Vec3 0.0 0.2 (- 0.9))),
      SetShaderTexture ''table'',
      ok (SetTextureUVScale 1.0 1.0),
      SetShaderMaterial uninit ''wood'',
      ok DrawBoxMesh]"

definition RenderBackdrop :: "SceneManager \<Rightarrow> error + SceneManager" where
  "RenderBackdrop = do_all
     [ok (SetTransformations (Vec3 20.0 1.0 20.0) 90.0 0.0 0.0 (Vec3 0.0 15.0 (- 10.0))),
      ok (SetShaderColor 0.75 0.75 0.75 1.0),
      ok DrawPlaneMesh]"

definition RenderCheeseWheel :: "OBJECT_MATERIAL \<Rightarrow> SceneManager \<Rightarrow> error + SceneManager" where
  "RenderCheeseWheel uninit = do_all
     [ok (SetTransformations (Vec3 1.1 0.8 0.9) 0.0 0.0 0.0 (Vec3 (- 1.0) 1.4 0.0)),
      SetShaderTexture ''cheese_wheel_side'',
      ok (SetTextureUVScale 5.0 1.0),
      SetShaderMaterial uninit ''cheese'',
      ok (DrawCylinderMesh False False True),
      SetShaderTexture ''cheese_wheel_top'',
      ok (SetTextureUVScale 1.0 1.0),
      ok (DrawCylinderMesh True False False)]"

definition RenderWineGlass :: "OBJECT_MATERIAL \<Rightarrow> SceneManager \<Rightarrow> error + SceneManager" where
  "RenderWineGlass uninit = do_all
     [ok (SetTransformations (Vec3 1.0 2.0 1.0) 0.0 0.0 0.0 (Vec3 6.0 1.5 (- 1.5))),
      ok (SetShaderColor 0.7 0.7 0.8 0.3),
      SetShaderMaterial uninit ''glass'',
      ok (DrawCylinderMesh False False True),
      ok (SetTransformations (Vec3 1.0 0.1 1.0) 0.0 0.0 0.0 (Vec3 6.0 0.55 (- 1.5))),
      ok (SetShaderColor 0.7 0.7 0.8 0.3),
      SetShaderMaterial uninit ''glass'',
      ok (DrawCylinderMesh True False False)]"

definition RenderWineBottle :: "OBJECT_MATERIAL \<Rightarrow> SceneManager \<Rightarrow> error + SceneManager" where
  "RenderWineBottle uninit = do_all
     [ok (SetTransformations (Vec3 0.9 0.3 0.9) 0.0 0.0 180.0 (Vec3 4.0 0.9 (- 2.6))),
      ok (SetShaderColor 0.06 0.07 0.06 1.0),
      SetShaderMaterial uninit ''glass'',
      ok DrawHalfSphereMesh,
      ok (SetTransformations (Vec3 0.9 4.0 0.9) 0.0 0.0 0.0 (Vec3 4.0 0.9 (- 2.6))),
      ok (SetShaderColor 0.06 0.07 0.06 1.0),
      SetShaderMaterial uninit ''glass'',
      ok (DrawCylinderMesh False False True),
      ok (SetTransformations (Vec3 0.905 0.9 0.905) 0.0 (- 6.0) 0.0 (Vec3 4.0 4.9 (- 2.6))),
      ok (SetShaderColor 0.06 0.07 0.06 1.0),
      SetShaderMaterial uninit ''glass'',
      ok DrawHalfSphereMesh,
      ok (SetTransformations (Vec3 0.3 2.0 0.3) 0.0 0.0 0.0 (Vec3 4.0 5.6 (- 2.6))),
      ok (SetShaderColor 0.06 0.07 0.06 1.0),
      SetShaderMaterial uninit ''glass'',
      ok (DrawCylinderMesh False False True),
      ok (SetTransformations (Vec3 0.32 0.32 1.5) 90.0 0.0 0.0 (Vec3 (- 1.8) 7.4 (- 2.6))),
      ok (SetShaderColor 0.06 0.07 0.06 1.0),
      SetShaderMaterial uninit ''glass'',
      ok DrawTorusMesh,
      ok (SetTransformations (Vec3 0.28 0.28 0.4) 90.0 0.0 0.0 (Vec3 (- 1.8) 7.6 (- 2.6))),
      ok (SetShaderColor 0.06 0.07 0.06 1.0),
      SetShaderMaterial uninit ''glass'',
      ok DrawTorusMesh]"

definition RenderScene :: "OBJECT_MATERIAL \<Rightarrow> SceneManager \<Rightarrow> error + SceneManager" where
  "RenderScene uninit = do_all
     [RenderTable uninit,
      RenderBackdrop,
      RenderCheeseWheel uninit,
      RenderBook uninit,
      RenderWineGlass uninit,
      RenderWineBottle uninit]"

text \<open>A run of \<^verbatim>\<open>CreateGLTexture\<close> calls, one per entry (the decoder's result, the
  generated texture name, the tag), the results of the calls collected in order.\<close>

fun CreateGLTextures ::
  "(image option \<times> 32 word \<times> string) list \<Rightarrow> SceneManager
     \<Rightarrow> error + (bool list \<times> SceneManager)" where
  "CreateGLTextures [] s = Inr ([], s)"
| "CreateGLTextures ((decoded, textureID, tg) # calls) s =
     (case CreateGLTexture decoded textureID tg s of
        Inl e \<Rightarrow> Inl e
      | Inr (b, s') \<Rightarrow>
          (case CreateGLTextures calls s' of
             Inl e \<Rightarrow> Inl e
           | Inr (bs, s'') \<Rightarrow> Inr (b # bs, s'')))"


text \<open>A decoder result the function accepts: an image with 3 (RGB) or 4 (RGBA)
  channels.\<close>

definition valid_image :: "image option \<Rightarrow> bool" where
  "valid_image decoded \<longleftrightarrow>
     (case decoded of None \<Rightarrow> False | Some img \<Rightarrow> colorChannels img = 3 \<or> colorChannels img = 4)"


text \<open>
  What a draw request shows of the sub-draw it belongs to: the primitive, the model
  matrix in force, and the colour-or-texture selection the shader makes from
  \<^verbatim>\<open>bUseTexture\<close> (0: the solid colour \<^verbatim>\<open>objectColor\<close>; otherwise the sampler index
  \<^verbatim>\<open>objectTexture\<close>).
\<close>

datatype appearance = SolidColor vec4 | Textured int | Unset

definition appearance_of :: "(string \<rightharpoonup> uniform) \<Rightarrow> appearance" where
  "appearance_of u =
     (case u g_UseTextureName of
        Some (IntValue flag) \<Rightarrow>
          (if flag = 0 then
             (case u g_ColorValueName of Some (Vec4Value c) \<Rightarrow> SolidColor c | _ \<Rightarrow> Unset)
           else
             (case u g_TextureValueName of Some (Sampler2DValue slot) \<Rightarrow> Textured slot
              | _ \<Rightarrow> Unset))
      | _ \<Rightarrow> Unset)"

definition sub_draw ::
  "mesh_draw \<times> (string \<rightharpoonup> uniform) \<Rightarrow> mesh_draw \<times> uniform option \<times> appearance" where
  "sub_draw d = (fst d, snd d g_ModelName, appearance_of (snd d))"

text \<open>The matrix \<^verbatim>\<open>SetTransformations\<close> computes in its local \<^verbatim>\<open>modelView\<close>, as a
  function of the five arguments.\<close>

definition modelView :: "vec3 \<Rightarrow> real \<Rightarrow> real \<Rightarrow> real \<Rightarrow> vec3 \<Rightarrow> mat4" where
  "modelView scaleXYZ XrotationDegrees YrotationDegrees ZrotationDegrees positionXYZ =
     mat4_mul
       (mat4_mul
         (mat4_mul
           (mat4_mul (glm_translate positionXYZ)
             (glm_rotate (glm_radians XrotationDegrees) (Vec3 1 0 0)))
           (glm_rotate (glm_radians YrotationDegrees) (Vec3 0 1 0)))
         (glm_rotate (glm_radians ZrotationDegrees) (Vec3 0 0 1)))
       (glm_scale scaleXYZ)"

text \<open>Proof vocabulary: the state \<^verbatim>\<open>SetShaderMaterial\<close> leaves when it returns
  normally.\<close>

definition after_material :: "OBJECT_MATERIAL \<Rightarrow> string \<Rightarrow> SceneManager \<Rightarrow> SceneManager" where
  "after_material uninit materialTag s =
     (case SetShaderMaterial uninit materialTag s of Inr s' \<Rightarrow> s' | Inl e \<Rightarrow> s)"

section \<open>Lemmas on the lookup loops\<close>

declare FindTextureID_loop.simps [simp del]
declare FindTextureSlot_loop.simps [simp del]
declare DestroyGLTextures_loop.simps [simp del]

lemma FindTextureSlot_loop_found:
  "FindTextureSlot_loop s tg r index True = Inr r"
  by (simp add: FindTextureSlot_loop.simps)

lemma FindTextureID_loop_found:
  "FindTextureID_loop s tg r index True = Inr r"
  by (simp add: FindTextureID_loop.simps)

text \<open>Scanning from \<open>index\<close>: with no match up to the count the initial value is
  returned.\<close>

lemma FindTextureSlot_loop_miss:
  assumes "registry_ok s" and "0 \<le> index"
    and "\<And>j. index \<le> j \<Longrightarrow> j < m_loadedTextures s \<Longrightarrow> tag (m_textureIDs s ! nat j) \<noteq> tg"
  shows "FindTextureSlot_loop s tg r index False = Inr r"
  using assms
proof (induction "nat (m_loadedTextures s - index)" arbitrary: index)
  case 0
  then show ?case by (simp add: FindTextureSlot_loop.simps)
next
  case (Suc n)
  have lt: "index < m_loadedTextures s" using Suc.hyps(2) by linarith
  have inb: "index < int (length (m_textureIDs s))"
    using lt Suc.prems(1) by (simp add: registry_ok_def)
  have nm: "tag (m_textureIDs s ! nat index) \<noteq> tg" using Suc.prems(3) [of index] lt by simp
  have step: "FindTextureSlot_loop s tg r (index + 1) False = Inr r"
  proof (rule Suc.hyps(1))
    show "n = nat (m_loadedTextures s - (index + 1))" using Suc.hyps(2) by linarith
    show "registry_ok s" by (rule Suc.prems(1))
    show "0 \<le> index + 1" using Suc.prems(2) by simp
    show "\<And>j. index + 1 \<le> j \<Longrightarrow> j < m_loadedTextures s \<Longrightarrow> tag (m_textureIDs s ! nat j) \<noteq> tg"
      using Suc.prems(3) by simp
  qed
  show ?case
    using lt inb nm Suc.prems(2) step
    by (subst FindTextureSlot_loop.simps) simp
qed

lemma FindTextureID_loop_miss:
  assumes "registry_ok s" and "0 \<le> index"
    and "\<And>j. index \<le> j \<Longrightarrow> j < m_loadedTextures s \<Longrightarrow> tag (m_textureIDs s ! nat j) \<noteq> tg"
  shows "FindTextureID_loop s tg r index False = Inr r"
  using assms
proof (induction "nat (m_loadedTextures s - index)" arbitrary: index)
  case 0
  then show ?case by (simp add: FindTextureID_loop.simps)
next
  case (Suc n)
  have lt: "index < m_loadedTextures s" using Suc.hyps(2) by linarith
  have inb: "index < int (length (m_textureIDs s))"
    using lt Suc.prems(1) by (simp add: registry_ok_def)
  have nm: "tag (m_textureIDs s ! nat index) \<noteq> tg" using Suc.prems(3) [of index] lt by simp
  have step: "FindTextureID_loop s tg r (index + 1) False = Inr r"
  proof (rule Suc.hyps(1))
    show "n = nat (m_loadedTextures s - (index + 1))" using Suc.hyps(2) by linarith
    show "registry_ok s" by (rule Suc.prems(1))
    show "0 \<le> index + 1" using Suc.prems(2) by simp
    show "\<And>j. index + 1 \<le> j \<Longrightarrow> j < m_loadedTextures s \<Longrightarrow> tag (m_textureIDs s ! nat j) \<noteq> tg"
      using Suc.prems(3) by simp
  qed
  show ?case
    using lt inb nm Suc.prems(2) step
    by (subst FindTextureID_loop.simps) simp
qed

text \<open>Scanning from \<open>index\<close>: the first slot at or after \<open>index\<close> that carries the
  tag decides the result.\<close>

lemma FindTextureSlot_loop_first:
  assumes "registry_ok s" and "0 \<le> index" and "index \<le> k" and "k < m_loadedTextures s"
    and "tag (m_textureIDs s ! nat k) = tg"
    and "\<And>j. index \<le> j \<Longrightarrow> j < k \<Longrightarrow> tag (m_textureIDs s ! nat j) \<noteq> tg"
  shows "FindTextureSlot_loop s tg r index False = Inr k"
  using assms
proof (induction "nat (k - index)" arbitrary: index r)
  case 0
  then have eq: "index = k" by simp
  have inb: "k < int (length (m_textureIDs s))"
    using "0.prems"(1,4) by (simp add: registry_ok_def)
  show ?case
    using eq inb "0.prems"(2,4,5)
    by (subst FindTextureSlot_loop.simps) (simp add: FindTextureSlot_loop_found)
next
  case (Suc n)
  have lt: "index < k" using Suc.hyps(2) by linarith
  have inb: "index < int (length (m_textureIDs s))"
    using lt Suc.prems(1,4) by (simp add: registry_ok_def)
  have nm: "tag (m_textureIDs s ! nat index) \<noteq> tg" using Suc.prems(6) [of index] lt by simp
  have step: "FindTextureSlot_loop s tg r (index + 1) False = Inr k"
  proof (rule Suc.hyps(1))
    show "n = nat (k - (index + 1))" using Suc.hyps(2) by linarith
    show "registry_ok s" by (rule Suc.prems(1))
    show "0 \<le> index + 1" using Suc.prems(2) by simp
    show "index + 1 \<le> k" using lt by simp
    show "k < m_loadedTextures s" by (rule Suc.prems(4))
    show "tag (m_textureIDs s ! nat k) = tg" by (rule Suc.prems(5))
    show "\<And>j. index + 1 \<le> j \<Longrightarrow> j < k \<Longrightarrow> tag (m_textureIDs s ! nat j) \<noteq> tg"
      using Suc.prems(6) by simp
  qed
  show ?case
    using lt inb nm Suc.prems(2,4) step
    by (subst FindTextureSlot_loop.simps) simp
qed

lemma FindTextureID_loop_first:
  assumes "registry_ok s" and "0 \<le> index" and "index \<le> k" and "k < m_loadedTextures s"
    and "tag (m_textureIDs s ! nat k) = tg"
    and "\<And>j. index \<le> j \<Longrightarrow> j < k \<Longrightarrow> tag (m_textureIDs s ! nat j) \<noteq> tg"
  shows "FindTextureID_loop s tg r index False = Inr (sint (ID (m_textureIDs s ! nat k)))"
  using assms
proof (induction "nat (k - index)" arbitrary: index r)
  case 0
  then have eq: "index = k" by simp
  have inb: "k < int (length (m_textureIDs s))"
    using "0.prems"(1,4) by (simp add: registry_ok_def)
  show ?case
    using eq inb "0.prems"(2,4,5)
    by (subst FindTextureID_loop.simps) (simp add: FindTextureID_loop_found)
next
  case (Suc n)
  have lt: "index < k" using Suc.hyps(2) by linarith
  have inb: "index < int (length (m_textureIDs s))"
    using lt Suc.prems(1,4) by (simp add: registry_ok_def)
  have nm: "tag (m_textureIDs s ! nat index) \<noteq> tg" using Suc.prems(6) [of index] lt by simp
  have step: "FindTextureID_loop s tg r (index + 1) False
                = Inr (sint (ID (m_textureIDs s ! nat k)))"
  proof (rule Suc.hyps(1))
    show "n = nat (k - (index + 1))" using Suc.hyps(2) by linarith
    show "registry_ok s" by (rule Suc.prems(1))
    show "0 \<le> index + 1" using Suc.prems(2) by simp
    show "index + 1 \<le> k" using lt by simp
    show "k < m_loadedTextures s" by (rule Suc.prems(4))
    show "tag (m_textureIDs s ! nat k) = tg" by (rule Suc.prems(5))
    show "\<And>j. index + 1 \<le> j \<Longrightarrow> j < k \<Longrightarrow> tag (m_textureIDs s ! nat j) \<noteq> tg"
      using Suc.prems(6) by simp
  qed
  show ?case
    using lt inb nm Suc.prems(2,4) step
    by (subst FindTextureID_loop.simps) simp
qed


section \<open>Lemmas on the matrix product\<close>

lemma mat4_vec_mul: "mat4_vec (mat4_mul A B) v = mat4_vec A (mat4_vec B v)"
proof -
  obtain a0 a1 a2 a3 where A: "A = Mat4 a0 a1 a2 a3" by (cases A)
  obtain b0 b1 b2 b3 where B: "B = Mat4 b0 b1 b2 b3" by (cases B)
  obtain x y z w where v: "v = Vec4 x y z w" by (cases v)
  show ?thesis
    unfolding A B v
    by (cases a0; cases a1; cases a2; cases a3; cases b0; cases b1; cases b2; cases b3)
       (simp add: algebra_simps)
qed

lemma mat4_mul_assoc: "mat4_mul (mat4_mul A B) C = mat4_mul A (mat4_mul B C)"
  by (cases C) (simp add: mat4_vec_mul)

lemma axis_units:
  "glm_normalize (Vec3 1 0 0) = Vec3 1 0 0"
  "glm_normalize (Vec3 0 1 0) = Vec3 0 1 0"
  "glm_normalize (Vec3 0 0 1) = Vec3 0 0 1"
  by (simp_all add: glm_normalize_def)


section \<open>Lemmas on the registry under changes elsewhere\<close>

text \<open>The slot lookup reads the count and the tags, nothing else.\<close>

lemma FindTextureSlot_loop_cong:
  assumes "m_loadedTextures s' = m_loadedTextures s"
    and "map tag (m_textureIDs s') = map tag (m_textureIDs s)"
  shows "FindTextureSlot_loop s' tg r index b = FindTextureSlot_loop s tg r index b"
proof (cases b)
  case True
  then show ?thesis by (simp add: FindTextureSlot_loop_found)
next
  case False
  have len: "length (m_textureIDs s') = length (m_textureIDs s)"
    using assms(2) by (metis length_map)
  have "FindTextureSlot_loop s' tg r index False = FindTextureSlot_loop s tg r index False"
  proof (induction "nat (m_loadedTextures s - index)" arbitrary: index)
    case 0
    then have "\<not> index < m_loadedTextures s" by simp
    then show ?case
      using assms(1)
      by (subst FindTextureSlot_loop.simps, subst (2) FindTextureSlot_loop.simps) simp
  next
    case (Suc n)
    have lt: "index < m_loadedTextures s" using Suc.hyps(2) by linarith
    have ih: "FindTextureSlot_loop s' tg r (index + 1) False
                = FindTextureSlot_loop s tg r (index + 1) False"
      by (rule Suc.hyps(1)) (use Suc.hyps(2) in linarith)
    show ?case
    proof (cases "0 \<le> index \<and> index < int (length (m_textureIDs s))")
      case False
      then show ?thesis
        using assms(1) len lt
        by (subst FindTextureSlot_loop.simps, subst (2) FindTextureSlot_loop.simps) auto
    next
      case inb: True
      then have n: "nat index < length (m_textureIDs s)" by linarith
      have "map tag (m_textureIDs s') ! nat index = map tag (m_textureIDs s) ! nat index"
        using assms(2) by simp
      then have same: "tag (m_textureIDs s' ! nat index) = tag (m_textureIDs s ! nat index)"
        using n len by simp
      show ?thesis
        using assms(1) len lt inb same ih
        by (subst FindTextureSlot_loop.simps, subst (2) FindTextureSlot_loop.simps)
           (simp add: FindTextureSlot_loop_found)
    qed
  qed
  with False show ?thesis by simp
qed

lemma FindTextureSlot_cong:
  assumes "m_loadedTextures s' = m_loadedTextures s"
    and "map tag (m_textureIDs s') = map tag (m_textureIDs s)"
  shows "FindTextureSlot s' tg = FindTextureSlot s tg"
  unfolding FindTextureSlot_def using assms by (rule FindTextureSlot_loop_cong)

lemma FindTextureSlot_setUniform [simp]:
  "FindTextureSlot (setUniform name v s) tg = FindTextureSlot s tg"
  by (rule FindTextureSlot_cong) (simp_all add: setUniform_def)

text \<open>In a registry that satisfies its invariant the slot lookup returns a value.\<close>

lemma FindTextureSlot_loop_total:
  assumes "registry_ok s" and "0 \<le> index"
  shows "\<exists>k. FindTextureSlot_loop s tg r index False = Inr k"
  using assms
proof (induction "nat (m_loadedTextures s - index)" arbitrary: index r)
  case 0
  then show ?case by (simp add: FindTextureSlot_loop.simps)
next
  case (Suc n)
  have lt: "index < m_loadedTextures s" using Suc.hyps(2) by linarith
  have inb: "index < int (length (m_textureIDs s))"
    using lt Suc.prems(1) by (simp add: registry_ok_def)
  have step: "\<exists>k. FindTextureSlot_loop s tg r (index + 1) False = Inr k"
  proof (rule Suc.hyps(1))
    show "n = nat (m_loadedTextures s - (index + 1))" using Suc.hyps(2) by linarith
    show "registry_ok s" by (rule Suc.prems(1))
    show "0 \<le> index + 1" using Suc.prems(2) by simp
  qed
  show ?case
    using lt inb Suc.prems(2) step
    by (subst FindTextureSlot_loop.simps) (simp add: FindTextureSlot_loop_found)
qed

lemma FindTextureSlot_total:
  assumes "registry_ok s"
  shows "\<exists>k. FindTextureSlot s tg = Inr k"
  unfolding FindTextureSlot_def using assms by (intro FindTextureSlot_loop_total) simp_all

lemma setUniform_fields [simp]:
  "m_pShaderManager (setUniform name v s) = m_pShaderManager s"
  "m_textureIDs (setUniform name v s) = m_textureIDs s"
  "m_loadedTextures (setUniform name v s) = m_loadedTextures s"
  "m_objectMaterials (setUniform name v s) = m_objectMaterials s"
  "draws (setUniform name v s) = draws s"
  "uniforms (setUniform name v s) = (uniforms s)(name \<mapsto> v)"
  by (simp_all add: setUniform_def)

lemmas setters =
  setMat4Value_def setIntValue_def setFloatValue_def setVec2Value_def setVec3Value_def
  setVec4Value_def setSampler2DValue_def

lemmas uniform_names =
  g_ModelName_def g_ColorValueName_def g_TextureValueName_def g_UseTextureName_def


section \<open>Lemmas on the material lookup\<close>

declare FindMaterial_loop.simps [simp del]

lemma FindMaterial_loop_miss:
  assumes "\<And>j. index \<le> j \<Longrightarrow> j < length ms \<Longrightarrow> material_tag (ms ! j) \<noteq> tg"
  shows "FindMaterial_loop ms tg material index False = material"
  using assms
proof (induction "length ms - index" arbitrary: index)
  case 0
  then show ?case by (simp add: FindMaterial_loop.simps)
next
  case (Suc n)
  have lt: "index < length ms" using Suc.hyps(2) by linarith
  have nm: "material_tag (ms ! index) \<noteq> tg" using Suc.prems [of index] lt by simp
  have step: "FindMaterial_loop ms tg material (index + 1) False = material"
  proof (rule Suc.hyps(1))
    show "n = length ms - (index + 1)" using Suc.hyps(2) by linarith
    show "\<And>j. index + 1 \<le> j \<Longrightarrow> j < length ms \<Longrightarrow> material_tag (ms ! j) \<noteq> tg"
      using Suc.prems by simp
  qed
  show ?case
    using lt nm step by (subst FindMaterial_loop.simps) simp
qed

lemma DefineObjectMaterials_tags:
  "map material_tag (m_objectMaterials (DefineObjectMaterials (SceneManager_new p us)))
     = [''metal'', ''wood'', ''glass'', ''cheese'', ''backdrop'']"
  by (simp add: DefineObjectMaterials_def SceneManager_new_def)


section \<open>Lemmas on loading and destroying\<close>

lemma map_tag_set_ID:
  assumes "n < length xs"
  shows "map tag (xs[n := (xs ! n)\<lparr> ID := v \<rparr>]) = map tag xs"
proof (rule nth_equalityI)
  show "length (map tag (xs[n := (xs ! n)\<lparr> ID := v \<rparr>])) = length (map tag xs)" by simp
next
  fix i assume "i < length (map tag (xs[n := (xs ! n)\<lparr> ID := v \<rparr>]))"
  then have i: "i < length xs" by simp
  show "map tag (xs[n := (xs ! n)\<lparr> ID := v \<rparr>]) ! i = map tag xs ! i"
    using i assms by (cases "i = n") simp_all
qed

lemma DestroyGLTextures_loop_frame:
  assumes "registry_ok s" and "0 \<le> i"
  shows "\<exists>s'. DestroyGLTextures_loop gen i s = Inr s'
           \<and> m_loadedTextures s' = m_loadedTextures s
           \<and> map tag (m_textureIDs s') = map tag (m_textureIDs s)"
  using assms
proof (induction "nat (m_loadedTextures s - i)" arbitrary: i s)
  case 0
  then show ?case by (simp add: DestroyGLTextures_loop.simps)
next
  case (Suc n)
  define s1 where "s1 = s\<lparr> m_textureIDs :=
      (m_textureIDs s)[nat i := (m_textureIDs s ! nat i)\<lparr> ID := gen i \<rparr>] \<rparr>"
  have lt: "i < m_loadedTextures s" using Suc.hyps(2) by linarith
  have inb: "i < int (length (m_textureIDs s))"
    using lt Suc.prems(1) by (simp add: registry_ok_def)
  then have inb': "nat i < length (m_textureIDs s)" using Suc.prems(2) by linarith
  have cnt: "m_loadedTextures s1 = m_loadedTextures s" by (simp add: s1_def)
  have tags: "map tag (m_textureIDs s1) = map tag (m_textureIDs s)"
    using inb' by (simp add: s1_def map_tag_set_ID)
  have ok1: "registry_ok s1"
    using Suc.prems(1) by (simp add: registry_ok_def s1_def)
  have "\<exists>s'. DestroyGLTextures_loop gen (i + 1) s1 = Inr s'
           \<and> m_loadedTextures s' = m_loadedTextures s1
           \<and> map tag (m_textureIDs s') = map tag (m_textureIDs s1)"
  proof (rule Suc.hyps(1))
    show "n = nat (m_loadedTextures s1 - (i + 1))" using Suc.hyps(2) cnt by linarith
    show "registry_ok s1" by (rule ok1)
    show "0 \<le> i + 1" using Suc.prems(2) by simp
  qed
  then obtain s' where s': "DestroyGLTextures_loop gen (i + 1) s1 = Inr s'"
      "m_loadedTextures s' = m_loadedTextures s1"
      "map tag (m_textureIDs s') = map tag (m_textureIDs s1)"
    by blast
  have "DestroyGLTextures_loop gen i s = DestroyGLTextures_loop gen (i + 1) s1"
    using lt inb Suc.prems(2) by (subst DestroyGLTextures_loop.simps) (simp add: s1_def)
  then show ?case using s' cnt tags by simp
qed

lemma CreateGLTexture_ok:
  assumes "registry_ok s" and "m_loadedTextures s < 16" and "valid_image decoded"
  shows "CreateGLTexture decoded textureID tg s
           = Inr (True,
               s\<lparr> m_textureIDs :=
                    (m_textureIDs s)[nat (m_loadedTextures s) := \<lparr> tag = tg, ID = textureID \<rparr>],
                  m_loadedTextures := m_loadedTextures s + 1 \<rparr>)"
  using assms
  by (auto simp: CreateGLTexture_def valid_image_def registry_ok_def Let_def
        split: option.splits)

lemma CreateGLTexture_full:
  assumes "registry_ok s" and "m_loadedTextures s = 16" and "valid_image decoded"
  shows "CreateGLTexture decoded textureID tg s = Inl OutOfBounds"
  using assms
  by (auto simp: CreateGLTexture_def valid_image_def registry_ok_def Let_def
        split: option.splits)

lemma CreateGLTextures_overflow:
  assumes "registry_ok s" and "\<And>c. c \<in> set calls \<Longrightarrow> valid_image (fst c)"
    and "16 < m_loadedTextures s + int (length calls)"
  shows "CreateGLTextures calls s = Inl OutOfBounds"
  using assms
proof (induction calls arbitrary: s)
  case Nil
  then show ?case by (simp add: registry_ok_def)
next
  case (Cons c calls)
  obtain decoded textureID tg where c: "c = (decoded, textureID, tg)" by (cases c)
  have v: "valid_image decoded" using Cons.prems(2) [of c] c by simp
  show ?case
  proof (cases "m_loadedTextures s = 16")
    case True
    then show ?thesis
      using CreateGLTexture_full [OF Cons.prems(1) True v] c by simp
  next
    case False
    then have lt: "m_loadedTextures s < 16" using Cons.prems(1) by (simp add: registry_ok_def)
    define s1 where "s1 = s\<lparr> m_textureIDs :=
        (m_textureIDs s)[nat (m_loadedTextures s) := \<lparr> tag = tg, ID = textureID \<rparr>],
        m_loadedTextures := m_loadedTextures s + 1 \<rparr>"
    have step: "CreateGLTexture decoded textureID tg s = Inr (True, s1)"
      unfolding s1_def by (rule CreateGLTexture_ok [OF Cons.prems(1) lt v])
    have ok1: "registry_ok s1"
      using Cons.prems(1) lt by (simp add: registry_ok_def s1_def)
    have "CreateGLTextures calls s1 = Inl OutOfBounds"
    proof (rule Cons.IH)
      show "registry_ok s1" by (rule ok1)
      show "\<And>c. c \<in> set calls \<Longrightarrow> valid_image (fst c)" using Cons.prems(2) by simp
      show "16 < m_loadedTextures s1 + int (length calls)"
        using Cons.prems(3) by (simp add: s1_def)
    qed
    then show ?thesis using step c by simp
  qed
qed

lemma CreateGLTextures_fill:
  assumes "registry_ok s" and "\<And>c. c \<in> set calls \<Longrightarrow> valid_image (fst c)"
    and "m_loadedTextures s + int (length calls) \<le> 16"
  shows "\<exists>s'. CreateGLTextures calls s = Inr (replicate (length calls) True, s')
           \<and> registry_ok s'
           \<and> m_loadedTextures s' = m_loadedTextures s + int (length calls)
           \<and> (\<forall>i. i < nat (m_loadedTextures s) \<longrightarrow> m_textureIDs s' ! i = m_textureIDs s ! i)
           \<and> (\<forall>k. k < length calls \<longrightarrow>
                 m_textureIDs s' ! (nat (m_loadedTextures s) + k)
                   = \<lparr> tag = snd (snd (calls ! k)), ID = fst (snd (calls ! k)) \<rparr>)"
  using assms
proof (induction calls arbitrary: s)
  case Nil
  then show ?case by simp
next
  case (Cons c calls)
  obtain decoded textureID tg where c: "c = (decoded, textureID, tg)" by (cases c)
  have v: "valid_image decoded" using Cons.prems(2) [of c] c by simp
  have lt: "m_loadedTextures s < 16" using Cons.prems(3) by simp
  have ge: "0 \<le> m_loadedTextures s" using Cons.prems(1) by (simp add: registry_ok_def)
  define n where "n = nat (m_loadedTextures s)"
  have n16: "n < length (m_textureIDs s)"
    using lt ge Cons.prems(1) by (simp add: registry_ok_def n_def)
  define s1 where "s1 = s\<lparr> m_textureIDs :=
      (m_textureIDs s)[n := \<lparr> tag = tg, ID = textureID \<rparr>],
      m_loadedTextures := m_loadedTextures s + 1 \<rparr>"
  have step: "CreateGLTexture decoded textureID tg s = Inr (True, s1)"
    unfolding s1_def n_def by (rule CreateGLTexture_ok [OF Cons.prems(1) lt v])
  have ok1: "registry_ok s1"
    using Cons.prems(1) lt by (simp add: registry_ok_def s1_def)
  have n1: "nat (m_loadedTextures s1) = Suc n" using ge by (simp add: s1_def n_def)
  have "\<exists>s'. CreateGLTextures calls s1 = Inr (replicate (length calls) True, s')
           \<and> registry_ok s'
           \<and> m_loadedTextures s' = m_loadedTextures s1 + int (length calls)
           \<and> (\<forall>i. i < nat (m_loadedTextures s1) \<longrightarrow> m_textureIDs s' ! i = m_textureIDs s1 ! i)
           \<and> (\<forall>k. k < length calls \<longrightarrow>
                 m_textureIDs s' ! (nat (m_loadedTextures s1) + k)
                   = \<lparr> tag = snd (snd (calls ! k)), ID = fst (snd (calls ! k)) \<rparr>)"
  proof (rule Cons.IH)
    show "registry_ok s1" by (rule ok1)
    show "\<And>c. c \<in> set calls \<Longrightarrow> valid_image (fst c)" using Cons.prems(2) by simp
    show "m_loadedTextures s1 + int (length calls) \<le> 16"
      using Cons.prems(3) by (simp add: s1_def)
  qed
  then obtain s' where run: "CreateGLTextures calls s1 = Inr (replicate (length calls) True, s')"
    and ok': "registry_ok s'"
    and cnt: "m_loadedTextures s' = m_loadedTextures s1 + int (length calls)"
    and old: "\<And>i. i < Suc n \<Longrightarrow> m_textureIDs s' ! i = m_textureIDs s1 ! i"
    and new: "\<And>k. k < length calls \<Longrightarrow>
                 m_textureIDs s' ! (Suc n + k)
                   = \<lparr> tag = snd (snd (calls ! k)), ID = fst (snd (calls ! k)) \<rparr>"
    unfolding n1 by blast
  have res: "CreateGLTextures (c # calls) s = Inr (replicate (length (c # calls)) True, s')"
    using step run c by simp
  have cnt': "m_loadedTextures s' = m_loadedTextures s + int (length (c # calls))"
    using cnt by (simp add: s1_def)
  have old': "\<forall>i. i < nat (m_loadedTextures s) \<longrightarrow> m_textureIDs s' ! i = m_textureIDs s ! i"
  proof (intro allI impI)
    fix i assume "i < nat (m_loadedTextures s)"
    then have i: "i < n" by (simp add: n_def)
    then have "m_textureIDs s' ! i = m_textureIDs s1 ! i" using old by simp
    also have "\<dots> = m_textureIDs s ! i" using i by (simp add: s1_def)
    finally show "m_textureIDs s' ! i = m_textureIDs s ! i" .
  qed
  have new': "\<forall>k. k < length (c # calls) \<longrightarrow>
                 m_textureIDs s' ! (nat (m_loadedTextures s) + k)
                   = \<lparr> tag = snd (snd ((c # calls) ! k)), ID = fst (snd ((c # calls) ! k)) \<rparr>"
  proof (intro allI impI)
    fix k assume k: "k < length (c # calls)"
    show "m_textureIDs s' ! (nat (m_loadedTextures s) + k)
            = \<lparr> tag = snd (snd ((c # calls) ! k)), ID = fst (snd ((c # calls) ! k)) \<rparr>"
    proof (cases k)
      case 0
      have "m_textureIDs s' ! n = m_textureIDs s1 ! n" using old by simp
      also have "\<dots> = \<lparr> tag = tg, ID = textureID \<rparr>" using n16 by (simp add: s1_def)
      finally show ?thesis using 0 c by (simp add: n_def)
    next
      case (Suc k')
      then have "k' < length calls" using k by simp
      then show ?thesis using new [of k'] Suc by (simp add: n_def)
    qed
  qed
  show ?case using res ok' cnt' old' new' by blast
qed

lemma SceneManager_new_ok: "registry_ok (SceneManager_new p us)"
  by (simp add: registry_ok_def SceneManager_new_def)


section \<open>Lemmas on the render routines\<close>

lemma registry_ok_setUniform [simp]: "registry_ok (setUniform name v s) = registry_ok s"
  by (simp add: registry_ok_def)

lemma names_distinct:
  "g_ModelName \<noteq> g_ColorValueName" "g_ModelName \<noteq> g_TextureValueName"
  "g_ModelName \<noteq> g_UseTextureName" "g_ColorValueName \<noteq> g_ModelName"
  "g_ColorValueName \<noteq> g_TextureValueName" "g_ColorValueName \<noteq> g_UseTextureName"
  "g_TextureValueName \<noteq> g_ModelName" "g_TextureValueName \<noteq> g_ColorValueName"
  "g_TextureValueName \<noteq> g_UseTextureName" "g_UseTextureName \<noteq> g_ModelName"
  "g_UseTextureName \<noteq> g_ColorValueName" "g_UseTextureName \<noteq> g_TextureValueName"
  "g_ModelName \<noteq> ''UVscale''" "g_ColorValueName \<noteq> ''UVscale''"
  "g_TextureValueName \<noteq> ''UVscale''" "g_UseTextureName \<noteq> ''UVscale''"
  by (simp_all add: uniform_names)

text \<open>With a shader manager attached, each bridge function is its uniform writes.\<close>

lemma SetTransformations_attached:
  "m_pShaderManager s \<noteq> NULL \<Longrightarrow>
     SetTransformations sc x y z pos s
       = setUniform g_ModelName (Mat4Value (modelView sc x y z pos)) s"
  by (simp add: SetTransformations_def modelView_def Let_def setters)

lemma SetShaderColor_attached:
  "m_pShaderManager s \<noteq> NULL \<Longrightarrow>
     SetShaderColor r g b a s
       = setUniform g_ColorValueName (Vec4Value (Vec4 r g b a))
           (setUniform g_UseTextureName (IntValue 0) s)"
  by (simp add: SetShaderColor_def Let_def setters)

lemma SetTextureUVScale_attached:
  "m_pShaderManager s \<noteq> NULL \<Longrightarrow>
     SetTextureUVScale u v s = setUniform ''UVscale'' (Vec2Value (Vec2 u v)) s"
  by (simp add: SetTextureUVScale_def setters)

lemma SetShaderTexture_attached:
  "m_pShaderManager s \<noteq> NULL \<Longrightarrow>
     SetShaderTexture tg s
       = (case FindTextureSlot s tg of
            Inl e \<Rightarrow> Inl e
          | Inr k \<Rightarrow>
              Inr (setUniform g_TextureValueName (Sampler2DValue k)
                     (setUniform g_UseTextureName (IntValue 1) s)))"
  by (cases "FindTextureSlot s tg") (simp_all add: SetShaderTexture_def Let_def setters)

text \<open>\<^verbatim>\<open>SetShaderMaterial\<close> returns normally with a shader manager attached, and
  writes at most the five \<^verbatim>\<open>material.*\<close> uniforms.\<close>

lemma SetShaderMaterial_attached:
  "m_pShaderManager s \<noteq> NULL \<Longrightarrow>
     SetShaderMaterial uninit tg s = Inr (after_material uninit tg s)"
  by (cases "FindMaterial tg uninit s")
     (simp add: after_material_def SetShaderMaterial_def Let_def)

lemma after_material_fields [simp]:
  "m_pShaderManager (after_material uninit tg s) = m_pShaderManager s"
  "m_textureIDs (after_material uninit tg s) = m_textureIDs s"
  "m_loadedTextures (after_material uninit tg s) = m_loadedTextures s"
  "m_objectMaterials (after_material uninit tg s) = m_objectMaterials s"
  "draws (after_material uninit tg s) = draws s"
  by (cases "FindMaterial tg uninit s";
      simp add: after_material_def SetShaderMaterial_def Let_def setters)+

lemma after_material_uniforms [simp]:
  "uniforms (after_material uninit tg s) g_ModelName = uniforms s g_ModelName"
  "uniforms (after_material uninit tg s) g_UseTextureName = uniforms s g_UseTextureName"
  "uniforms (after_material uninit tg s) g_ColorValueName = uniforms s g_ColorValueName"
  "uniforms (after_material uninit tg s) g_TextureValueName = uniforms s g_TextureValueName"
  by (cases "FindMaterial tg uninit s";
      simp add: after_material_def SetShaderMaterial_def Let_def setters uniform_names)+

lemma FindTextureSlot_after_material [simp]:
  "FindTextureSlot (after_material uninit tg' s) tg = FindTextureSlot s tg"
  by (rule FindTextureSlot_cong) simp_all

lemma FindTextureSlot_draws [simp]:
  "FindTextureSlot (s\<lparr> draws := d \<rparr>) tg = FindTextureSlot s tg"
  by (rule FindTextureSlot_cong) simp_all

lemmas draw_calls =
  DrawBoxMesh_def DrawPlaneMesh_def DrawCylinderMesh_def DrawHalfSphereMesh_def
  DrawTorusMesh_def

lemmas run_simps =
  ok_def SetTransformations_attached SetShaderColor_attached SetTextureUVScale_attached
  SetShaderTexture_attached SetShaderMaterial_attached draw_calls sub_draw_def
  appearance_of_def names_distinct

text \<open>Each routine, run from a state with a shader manager attached: it returns
  normally, leaves the pointer and the registry as they were, and appends its draw
  requests, each showing the transform and the colour or texture set just before
  it.\<close>

lemma RenderTable_run:
  assumes "m_pShaderManager s \<noteq> NULL" and "FindTextureSlot s ''table'' = Inr tTable"
  shows "\<exists>s' d. RenderTable uninit s = Inr s'
           \<and> m_pShaderManager s' = m_pShaderManager s
           \<and> m_textureIDs s' = m_textureIDs s
           \<and> m_loadedTextures s' = m_loadedTextures s
           \<and> draws s' = draws s @ d
           \<and> map sub_draw d =
               [(Box, Some (Mat4Value (modelView (Vec3 20.0 0.6 8.0) 0.0 0.0 0.0
                                         (Vec3 0.0 0.2 (- 0.9)))),
                 Textured tTable)]"
  using assms by (simp add: RenderTable_def run_simps)

lemma RenderBackdrop_run:
  assumes "m_pShaderManager s \<noteq> NULL"
  shows "\<exists>s' d. RenderBackdrop s = Inr s'
           \<and> m_pShaderManager s' = m_pShaderManager s
           \<and> m_textureIDs s' = m_textureIDs s
           \<and> m_loadedTextures s' = m_loadedTextures s
           \<and> draws s' = draws s @ d
           \<and> map sub_draw d =
               [(Plane, Some (Mat4Value (modelView (Vec3 20.0 1.0 20.0) 90.0 0.0 0.0
                                           (Vec3 0.0 15.0 (- 10.0)))),
                 SolidColor (Vec4 0.75 0.75 0.75 1.0))]"
  using assms by (simp add: RenderBackdrop_def run_simps)

lemma RenderCheeseWheel_run:
  assumes "m_pShaderManager s \<noteq> NULL"
    and "FindTextureSlot s ''cheese_wheel_side'' = Inr tSide"
    and "FindTextureSlot s ''cheese_wheel_top'' = Inr tTop"
  shows "\<exists>s' d. RenderCheeseWheel uninit s = Inr s'
           \<and> m_pShaderManager s' = m_pShaderManager s
           \<and> m_textureIDs s' = m_textureIDs s
           \<and> m_loadedTextures s' = m_loadedTextures s
           \<and> draws s' = draws s @ d
           \<and> map sub_draw d =
               [(Cylinder False False True,
                 Some (Mat4Value (modelView (Vec3 1.1 0.8 0.9) 0.0 0.0 0.0 (Vec3 (- 1.0) 1.4 0.0))),
                 Textured tSide),
                (Cylinder True False False,
                 Some (Mat4Value (modelView (Vec3 1.1 0.8 0.9) 0.0 0.0 0.0 (Vec3 (- 1.0) 1.4 0.0))),
                 Textured tTop)]"
  using assms by (simp add: RenderCheeseWheel_def run_simps)

lemma RenderBook_run:
  assumes "m_pShaderManager s \<noteq> NULL"
  shows "\<exists>s' d. RenderBook uninit s = Inr s'
           \<and> m_pShaderManager s' = m_pShaderManager s
           \<and> m_textureIDs s' = m_textureIDs s
           \<and> m_loadedTextures s' = m_loadedTextures s
           \<and> draws s' = draws s @ d
           \<and> map sub_draw d =
               [(Box,
                 Some (Mat4Value (modelView (Vec3 2.2 0.08 1.5) 0.0 (- 12.0) 0.0
                                    (Vec3 (- 1.2) 0.59 0.3))),
                 SolidColor (Vec4 1.0 0.5 0.1 1.0)),
                (Box,
                 Some (Mat4Value (modelView (Vec3 0.08 0.08 1.5) 0.0 (- 12.0) 0.0
                                    (Vec3 (- 2.3) 0.59 0.3))),
                 SolidColor (Vec4 0.9 0.4 0.05 1.0)),
                (Box,
                 Some (Mat4Value (modelView (Vec3 2.15 0.06 1.45) 0.0 (- 12.0) 0.0
                                    (Vec3 (- 1.2) 0.57 0.3))),
                 SolidColor (Vec4 0.95 0.95 0.9 1.0))]"
  using assms by (simp add: RenderBook_def run_simps)

lemma RenderWineGlass_run:
  assumes "m_pShaderManager s \<noteq> NULL"
  shows "\<exists>s' d. RenderWineGlass uninit s = Inr s'
           \<and> m_pShaderManager s' = m_pShaderManager s
           \<and> m_textureIDs s' = m_textureIDs s
           \<and> m_loadedTextures s' = m_loadedTextures s
           \<and> draws s' = draws s @ d
           \<and> map sub_draw d =
               [(Cylinder False False True,
                 Some (Mat4Value (modelView (Vec3 1.0 2.0 1.0) 0.0 0.0 0.0 (Vec3 6.0 1.5 (- 1.5)))),
                 SolidColor (Vec4 0.7 0.7 0.8 0.3)),
                (Cylinder True False False,
                 Some (Mat4Value (modelView (Vec3 1.0 0.1 1.0) 0.0 0.0 0.0 (Vec3 6.0 0.55 (- 1.5)))),
                 SolidColor (Vec4 0.7 0.7 0.8 0.3))]"
  using assms by (simp add: RenderWineGlass_def run_simps)

lemma RenderWineBottle_run:
  assumes "m_pShaderManager s \<noteq> NULL"
  shows "\<exists>s' d. RenderWineBottle uninit s = Inr s'
           \<and> m_pShaderManager s' = m_pShaderManager s
           \<and> m_textureIDs s' = m_textureIDs s
           \<and> m_loadedTextures s' = m_loadedTextures s
           \<and> draws s' = draws s @ d
           \<and> map sub_draw d =
               [(HalfSphere,
                 Some (Mat4Value (modelView (Vec3 0.9 0.3 0.9) 0.0 0.0 180.0 (Vec3 4.0 0.9 (- 2.6)))),
                 SolidColor (Vec4 0.06 0.07 0.06 1.0)),
                (Cylinder False False True,
                 Some (Mat4Value (modelView (Vec3 0.9 4.0 0.9) 0.0 0.0 0.0 (Vec3 4.0 0.9 (- 2.6)))),
                 SolidColor (Vec4 0.06 0.07 0.06 1.0)),
                (HalfSphere,
                 Some (Mat4Value (modelView (Vec3 0.905 0.9 0.905) 0.0 (- 6.0) 0.0
                                    (Vec3 4.0 4.9 (- 2.6)))),
                 SolidColor (Vec4 0.06 0.07 0.06 1.0)),
                (Cylinder False False True,
                 Some (Mat4Value (modelView (Vec3 0.3 2.0 0.3) 0.0 0.0 0.0 (Vec3 4.0 5.6 (- 2.6)))),
                 SolidColor (Vec4 0.06 0.07 0.06 1.0)),
                (Torus,
                 Some (Mat4Value (modelView (Vec3 0.32 0.32 1.5) 90.0 0.0 0.0
                                    (Vec3 (- 1.8) 7.4 (- 2.6)))),
                 SolidColor (Vec4 0.06 0.07 0.06 1.0)),
                (Torus,
                 Some (Mat4Value (modelView (Vec3 0.28 0.28 0.4) 90.0 0.0 0.0
                                    (Vec3 (- 1.8) 7.6 (- 2.6)))),
                 SolidColor (Vec4 0.06 0.07 0.06 1.0))]"
  using assms by (simp add: RenderWineBottle_def run_simps)

section \<open>Theorems\<close>

text \<open>
  C5. For every decoded image whose channel count is neither 3 nor 4,
  \<^verbatim>\<open>CreateGLTexture\<close> returns failure and the scene manager (so the slot count
  \<^verbatim>\<open>m_loadedTextures\<close> and every slot's tag and handle) is the same after the call as
  before, whatever the registry held.
\<close>

theorem CreateGLTexture_bad_channels:
  assumes "colorChannels img \<noteq> 3" and "colorChannels img \<noteq> 4"
  shows "CreateGLTexture (Some img) textureID tg s = Inr (False, s)"
  using assms by (simp add: CreateGLTexture_def)

theorem CreateGLTexture_bad_channels_witness:
  "colorChannels \<lparr> width = 8, height = 8, colorChannels = 1 \<rparr> \<noteq> 3
   \<and> colorChannels \<lparr> width = 8, height = 8, colorChannels = 1 \<rparr> \<noteq> 4
   \<and> CreateGLTexture (Some \<lparr> width = 8, height = 8, colorChannels = 1 \<rparr>) 5 ''table''
        (SceneManager_new ShaderManager_object Map.empty)
      = Inr (False, SceneManager_new ShaderManager_object Map.empty)"
proof -
  have h3: "colorChannels \<lparr> width = 8, height = 8, colorChannels = 1 \<rparr> \<noteq> 3" by simp
  have h4: "colorChannels \<lparr> width = 8, height = 8, colorChannels = 1 \<rparr> \<noteq> 4" by simp
  show ?thesis
    using h3 h4 CreateGLTexture_bad_channels [OF h3 h4] by simp
qed


text \<open>
  C6. In a registry that satisfies its invariant, \<^verbatim>\<open>FindTextureSlot\<close> and
  \<^verbatim>\<open>FindTextureID\<close> return normally (no read outside the array) for every tag: when
  no loaded slot carries the tag both return \<open>-1\<close>, and when slot \<open>i\<close> is the earliest
  loaded slot carrying the tag (later slots may carry it too) they return \<open>i\<close> and the
  handle stored in slot \<open>i\<close>.
\<close>

theorem lookup_first_match:
  assumes "registry_ok s"
  shows "((\<forall>i. i < nat (m_loadedTextures s) \<longrightarrow> tag (m_textureIDs s ! i) \<noteq> tg) \<longrightarrow>
            FindTextureSlot s tg = Inr (- 1) \<and> FindTextureID s tg = Inr (- 1))
       \<and> (\<forall>i. i < nat (m_loadedTextures s) \<and> tag (m_textureIDs s ! i) = tg
              \<and> (\<forall>j. j < i \<longrightarrow> tag (m_textureIDs s ! j) \<noteq> tg) \<longrightarrow>
            FindTextureSlot s tg = Inr (int i)
            \<and> FindTextureID s tg = Inr (sint (ID (m_textureIDs s ! i))))"
proof (intro conjI impI allI)
  assume miss: "\<forall>i. i < nat (m_loadedTextures s) \<longrightarrow> tag (m_textureIDs s ! i) \<noteq> tg"
  have no: "\<And>j. 0 \<le> j \<Longrightarrow> j < m_loadedTextures s \<Longrightarrow> tag (m_textureIDs s ! nat j) \<noteq> tg"
  proof -
    fix j :: int
    assume "0 \<le> j" and "j < m_loadedTextures s"
    then have "nat j < nat (m_loadedTextures s)" by linarith
    with miss show "tag (m_textureIDs s ! nat j) \<noteq> tg" by blast
  qed
  show "FindTextureSlot s tg = Inr (- 1)"
    unfolding FindTextureSlot_def
    using assms no by (intro FindTextureSlot_loop_miss) simp_all
  show "FindTextureID s tg = Inr (- 1)"
    unfolding FindTextureID_def
    using assms no by (intro FindTextureID_loop_miss) simp_all
next
  fix i
  assume h: "i < nat (m_loadedTextures s) \<and> tag (m_textureIDs s ! i) = tg
              \<and> (\<forall>j. j < i \<longrightarrow> tag (m_textureIDs s ! j) \<noteq> tg)"
  have k: "int i < m_loadedTextures s" using h by linarith
  have hit: "tag (m_textureIDs s ! nat (int i)) = tg" using h by simp
  have before: "\<And>j. 0 \<le> j \<Longrightarrow> j < int i \<Longrightarrow> tag (m_textureIDs s ! nat j) \<noteq> tg"
  proof -
    fix j :: int
    assume "0 \<le> j" and "j < int i"
    then have "nat j < i" by linarith
    with h show "tag (m_textureIDs s ! nat j) \<noteq> tg" by blast
  qed
  have "FindTextureSlot_loop s tg (- 1) 0 False = Inr (int i)"
    using assms k hit before by (intro FindTextureSlot_loop_first) simp_all
  then show "FindTextureSlot s tg = Inr (int i)" by (simp add: FindTextureSlot_def)
  have "FindTextureID_loop s tg (- 1) 0 False = Inr (sint (ID (m_textureIDs s ! nat (int i))))"
    using assms k hit before by (intro FindTextureID_loop_first) simp_all
  then show "FindTextureID s tg = Inr (sint (ID (m_textureIDs s ! i)))"
    by (simp add: FindTextureID_def)
qed

text \<open>A registry with three loaded slots, the first and the third sharing a tag: the
  lookup answers with the first, and an unknown tag gives \<open>-1\<close>.\<close>

theorem lookup_first_match_witness:
  "registry_ok
     ((SceneManager_new ShaderManager_object Map.empty)
        \<lparr> m_textureIDs :=
             [\<lparr> tag = ''wood'', ID = 11 \<rparr>, \<lparr> tag = ''gold'', ID = 12 \<rparr>,
              \<lparr> tag = ''wood'', ID = 13 \<rparr>] @ replicate 13 \<lparr> tag = ''/0'', ID = - 1 \<rparr>,
           m_loadedTextures := 3 \<rparr>)
   \<and> FindTextureSlot
       ((SceneManager_new ShaderManager_object Map.empty)
        \<lparr> m_textureIDs :=
             [\<lparr> tag = ''wood'', ID = 11 \<rparr>, \<lparr> tag = ''gold'', ID = 12 \<rparr>,
              \<lparr> tag = ''wood'', ID = 13 \<rparr>] @ replicate 13 \<lparr> tag = ''/0'', ID = - 1 \<rparr>,
           m_loadedTextures := 3 \<rparr>) ''wood'' = Inr 0
   \<and> FindTextureID
       ((SceneManager_new ShaderManager_object Map.empty)
        \<lparr> m_textureIDs :=
             [\<lparr> tag = ''wood'', ID = 11 \<rparr>, \<lparr> tag = ''gold'', ID = 12 \<rparr>,
              \<lparr> tag = ''wood'', ID = 13 \<rparr>] @ replicate 13 \<lparr> tag = ''/0'', ID = - 1 \<rparr>,
           m_loadedTextures := 3 \<rparr>) ''wood'' = Inr 11
   \<and> FindTextureSlot
       ((SceneManager_new ShaderManager_object Map.empty)
        \<lparr> m_textureIDs :=
             [\<lparr> tag = ''wood'', ID = 11 \<rparr>, \<lparr> tag = ''gold'', ID = 12 \<rparr>,
              \<lparr> tag = ''wood'', ID = 13 \<rparr>] @ replicate 13 \<lparr> tag = ''/0'', ID = - 1 \<rparr>,
           m_loadedTextures := 3 \<rparr>) ''glass'' = Inr (- 1)
   \<and> FindTextureID
       ((SceneManager_new ShaderManager_object Map.empty)
        \<lparr> m_textureIDs :=
             [\<lparr> tag = ''wood'', ID = 11 \<rparr>, \<lparr> tag = ''gold'', ID = 12 \<rparr>,
              \<lparr> tag = ''wood'', ID = 13 \<rparr>] @ replicate 13 \<lparr> tag = ''/0'', ID = - 1 \<rparr>,
           m_loadedTextures := 3 \<rparr>) ''glass'' = Inr (- 1)"
proof -
  define s where "s = (SceneManager_new ShaderManager_object Map.empty)
        \<lparr> m_textureIDs :=
             [\<lparr> tag = ''wood'', ID = 11 \<rparr>, \<lparr> tag = ''gold'', ID = 12 \<rparr>,
              \<lparr> tag = ''wood'', ID = 13 \<rparr>] @ replicate 13 \<lparr> tag = ''/0'', ID = - 1 \<rparr>,
           m_loadedTextures := 3 \<rparr>"
  have ids: "m_textureIDs s =
      [\<lparr> tag = ''wood'', ID = 11 \<rparr>, \<lparr> tag = ''gold'', ID = 12 \<rparr>,
       \<lparr> tag = ''wood'', ID = 13 \<rparr>] @ replicate 13 \<lparr> tag = ''/0'', ID = - 1 \<rparr>"
    and n: "m_loadedTextures s = 3"
    by (simp_all add: s_def SceneManager_new_def)
  have ok: "registry_ok s" by (simp add: registry_ok_def ids n)
  have miss: "\<forall>i. i < nat (m_loadedTextures s) \<longrightarrow> tag (m_textureIDs s ! i) \<noteq> ''glass''"
  proof (intro allI impI)
    fix i :: nat
    assume "i < nat (m_loadedTextures s)"
    then have "i = 0 \<or> i = 1 \<or> i = 2" unfolding n by arith
    then show "tag (m_textureIDs s ! i) \<noteq> ''glass''"
      by (elim disjE) (simp_all add: ids)
  qed
  have hit: "0 < nat (m_loadedTextures s) \<and> tag (m_textureIDs s ! 0) = ''wood''
              \<and> (\<forall>j. j < (0::nat) \<longrightarrow> tag (m_textureIDs s ! j) \<noteq> ''wood'')"
    by (simp add: ids n)
  have a: "FindTextureSlot s ''glass'' = Inr (- 1) \<and> FindTextureID s ''glass'' = Inr (- 1)"
    using lookup_first_match [OF ok, of "''glass''"] miss by blast
  have b: "FindTextureSlot s ''wood'' = Inr (int 0)
           \<and> FindTextureID s ''wood'' = Inr (sint (ID (m_textureIDs s ! 0)))"
    using lookup_first_match [OF ok, of "''wood''"] hit by blast
  have c: "sint (ID (m_textureIDs s ! 0)) = 11" by (simp add: ids)
  show ?thesis
    unfolding s_def [symmetric] using ok a b c by simp
qed


text \<open>
  C1. With a shader manager attached, \<^verbatim>\<open>SetTransformations\<close> stores under
  \<^verbatim>\<open>"model"\<close> the product Translate \<open>\<cdot>\<close> RotateX \<open>\<cdot>\<close> RotateY \<open>\<cdot>\<close> RotateZ \<open>\<cdot>\<close> Scale of its
  arguments: applied to a point the matrix scales first, then rotates about Z, about Y,
  about X, and translates last. For scale (2,1,1), a Y rotation of 90 degrees, no X or Z
  rotation and position (0,0,0) the matrix sends the point (1,0,0) to (0,0,-2).
\<close>

theorem SetTransformations_model_matrix:
  assumes "m_pShaderManager s \<noteq> NULL"
  shows "uniforms (SetTransformations scaleXYZ rx ry rz positionXYZ s) g_ModelName
           = Some (Mat4Value
               (mat4_mul (glm_translate positionXYZ)
                 (mat4_mul (glm_rotate (glm_radians rx) (Vec3 1 0 0))
                   (mat4_mul (glm_rotate (glm_radians ry) (Vec3 0 1 0))
                     (mat4_mul (glm_rotate (glm_radians rz) (Vec3 0 0 1))
                       (glm_scale scaleXYZ))))))
       \<and> (\<exists>M. uniforms (SetTransformations scaleXYZ rx ry rz positionXYZ s) g_ModelName
                 = Some (Mat4Value M)
              \<and> mat4_vec M p
                 = mat4_vec (glm_translate positionXYZ)
                     (mat4_vec (glm_rotate (glm_radians rx) (Vec3 1 0 0))
                       (mat4_vec (glm_rotate (glm_radians ry) (Vec3 0 1 0))
                         (mat4_vec (glm_rotate (glm_radians rz) (Vec3 0 0 1))
                           (mat4_vec (glm_scale scaleXYZ) p)))))
       \<and> (\<exists>M. uniforms (SetTransformations (Vec3 2 1 1) 0 90 0 (Vec3 0 0 0) s) g_ModelName
                 = Some (Mat4Value M)
              \<and> mat4_vec M (Vec4 1 0 0 1) = Vec4 0 0 (- 2) 1)"
proof (intro conjI)
  have stored: "\<And>sc x y z pos.
      uniforms (SetTransformations sc x y z pos s) g_ModelName
        = Some (Mat4Value
            (mat4_mul (glm_translate pos)
              (mat4_mul (glm_rotate (glm_radians x) (Vec3 1 0 0))
                (mat4_mul (glm_rotate (glm_radians y) (Vec3 0 1 0))
                  (mat4_mul (glm_rotate (glm_radians z) (Vec3 0 0 1)) (glm_scale sc))))))"
    using assms
    by (simp add: SetTransformations_def Let_def setMat4Value_def setUniform_def
          mat4_mul_assoc)
  show "uniforms (SetTransformations scaleXYZ rx ry rz positionXYZ s) g_ModelName
           = Some (Mat4Value
               (mat4_mul (glm_translate positionXYZ)
                 (mat4_mul (glm_rotate (glm_radians rx) (Vec3 1 0 0))
                   (mat4_mul (glm_rotate (glm_radians ry) (Vec3 0 1 0))
                     (mat4_mul (glm_rotate (glm_radians rz) (Vec3 0 0 1))
                       (glm_scale scaleXYZ))))))"
    by (rule stored)
  show "\<exists>M. uniforms (SetTransformations scaleXYZ rx ry rz positionXYZ s) g_ModelName
                 = Some (Mat4Value M)
              \<and> mat4_vec M p
                 = mat4_vec (glm_translate positionXYZ)
                     (mat4_vec (glm_rotate (glm_radians rx) (Vec3 1 0 0))
                       (mat4_vec (glm_rotate (glm_radians ry) (Vec3 0 1 0))
                         (mat4_vec (glm_rotate (glm_radians rz) (Vec3 0 0 1))
                           (mat4_vec (glm_scale scaleXYZ) p))))"
    by (simp add: stored mat4_vec_mul)
  have r0: "glm_radians 0 = 0" and r90: "glm_radians 90 = pi / 2"
    by (simp_all add: glm_radians_def)
  show "\<exists>M. uniforms (SetTransformations (Vec3 2 1 1) 0 90 0 (Vec3 0 0 0) s) g_ModelName
                 = Some (Mat4Value M)
              \<and> mat4_vec M (Vec4 1 0 0 1) = Vec4 0 0 (- 2) 1"
    by (simp add: stored mat4_vec_mul r0 r90 glm_rotate_def glm_scale_def glm_translate_def
          axis_units Let_def)
qed

theorem SetTransformations_model_matrix_witness:
  "m_pShaderManager (SceneManager_new ShaderManager_object Map.empty) \<noteq> NULL
   \<and> (\<exists>M. uniforms (SetTransformations (Vec3 2 1 1) 0 90 0 (Vec3 0 0 0)
                      (SceneManager_new ShaderManager_object Map.empty)) g_ModelName
             = Some (Mat4Value M)
          \<and> mat4_vec M (Vec4 1 0 0 1) = Vec4 0 0 (- 2) 1)"
proof -
  have h: "m_pShaderManager (SceneManager_new ShaderManager_object Map.empty) \<noteq> NULL"
    by (simp add: SceneManager_new_def)
  show ?thesis
    using h SetTransformations_model_matrix [OF h] by blast
qed


text \<open>
  C7. With a shader manager attached and whatever the uniforms held before,
  \<^verbatim>\<open>SetShaderColor\<close> leaves \<^verbatim>\<open>bUseTexture\<close> at 0 (false) and \<^verbatim>\<open>objectColor\<close> at the
  given colour; and, the registry satisfying its invariant, \<^verbatim>\<open>SetShaderTexture\<close>
  returns normally and leaves \<^verbatim>\<open>bUseTexture\<close> at 1 (true) and \<^verbatim>\<open>objectTexture\<close> at the
  slot index \<^verbatim>\<open>FindTextureSlot\<close> resolves for the tag.
\<close>

theorem use_texture_flag:
  assumes "m_pShaderManager s \<noteq> NULL"
  shows "uniforms (SetShaderColor r g b a s) g_UseTextureName = Some (IntValue 0)
       \<and> uniforms (SetShaderColor r g b a s) g_ColorValueName = Some (Vec4Value (Vec4 r g b a))
       \<and> (registry_ok s \<longrightarrow>
            (\<exists>slot s'. FindTextureSlot s tg = Inr slot
               \<and> SetShaderTexture tg s = Inr s'
               \<and> uniforms s' g_UseTextureName = Some (IntValue 1)
               \<and> uniforms s' g_TextureValueName = Some (Sampler2DValue slot)))"
proof (intro conjI impI)
  show "uniforms (SetShaderColor r g b a s) g_UseTextureName = Some (IntValue 0)"
    using assms by (simp add: SetShaderColor_def setters uniform_names)
  show "uniforms (SetShaderColor r g b a s) g_ColorValueName = Some (Vec4Value (Vec4 r g b a))"
    using assms by (simp add: SetShaderColor_def setters uniform_names)
next
  assume "registry_ok s"
  then obtain slot where slot: "FindTextureSlot s tg = Inr slot"
    using FindTextureSlot_total by blast
  have run: "SetShaderTexture tg s
      = Inr (setSampler2DValue g_TextureValueName slot (setIntValue g_UseTextureName 1 s))"
    using assms slot by (simp add: SetShaderTexture_def setters)
  have flag: "uniforms (setSampler2DValue g_TextureValueName slot
                 (setIntValue g_UseTextureName 1 s)) g_UseTextureName = Some (IntValue 1)"
    by (simp add: setters uniform_names)
  have sampler: "uniforms (setSampler2DValue g_TextureValueName slot
                 (setIntValue g_UseTextureName 1 s)) g_TextureValueName
                   = Some (Sampler2DValue slot)"
    by (simp add: setters uniform_names)
  show "\<exists>slot s'. FindTextureSlot s tg = Inr slot
               \<and> SetShaderTexture tg s = Inr s'
               \<and> uniforms s' g_UseTextureName = Some (IntValue 1)
               \<and> uniforms s' g_TextureValueName = Some (Sampler2DValue slot)"
    using slot run flag sampler by blast
qed

text \<open>The constructor's state with the flag set beforehand: the colour call clears it;
  with the flag clear beforehand, the texture call sets it (no texture is loaded, so the
  sampler index is \<open>-1\<close>).\<close>

theorem use_texture_flag_witness:
  "m_pShaderManager (SceneManager_new ShaderManager_object [g_UseTextureName \<mapsto> IntValue 1])
     \<noteq> NULL
   \<and> uniforms (SetShaderColor 1 0 0 1
        (SceneManager_new ShaderManager_object [g_UseTextureName \<mapsto> IntValue 1]))
        g_UseTextureName = Some (IntValue 0)
   \<and> m_pShaderManager (SceneManager_new ShaderManager_object [g_UseTextureName \<mapsto> IntValue 0])
     \<noteq> NULL
   \<and> registry_ok (SceneManager_new ShaderManager_object [g_UseTextureName \<mapsto> IntValue 0])
   \<and> (\<exists>s'. SetShaderTexture ''table''
               (SceneManager_new ShaderManager_object [g_UseTextureName \<mapsto> IntValue 0])
               = Inr s'
           \<and> uniforms s' g_UseTextureName = Some (IntValue 1))"
proof -
  have h1: "m_pShaderManager
      (SceneManager_new ShaderManager_object [g_UseTextureName \<mapsto> IntValue 1]) \<noteq> NULL"
    by (simp add: SceneManager_new_def)
  have h0: "m_pShaderManager
      (SceneManager_new ShaderManager_object [g_UseTextureName \<mapsto> IntValue 0]) \<noteq> NULL"
    by (simp add: SceneManager_new_def)
  have ok0: "registry_ok
      (SceneManager_new ShaderManager_object [g_UseTextureName \<mapsto> IntValue 0])"
    by (simp add: SceneManager_new_def registry_ok_def)
  show ?thesis
    using h1 h0 ok0
      use_texture_flag [OF h1, of 1 0 0 1 "''table''"]
      use_texture_flag [OF h0, of 1 0 0 1 "''table''"]
    by blast
qed

text \<open>
  C10. With a null \<^verbatim>\<open>m_pShaderManager\<close>, each of \<^verbatim>\<open>SetTransformations\<close>,
  \<^verbatim>\<open>SetShaderColor\<close>, \<^verbatim>\<open>SetShaderTexture\<close> and \<^verbatim>\<open>SetTextureUVScale\<close> returns normally
  and leaves the whole state, the uniforms included, as it was.
\<close>

theorem null_shader_manager_guarded:
  assumes "m_pShaderManager s = NULL"
  shows "SetTransformations scaleXYZ rx ry rz positionXYZ s = s
       \<and> SetShaderColor r g b a s = s
       \<and> SetShaderTexture tg s = Inr s
       \<and> SetTextureUVScale u v s = s"
  using assms
  by (simp add: SetTransformations_def SetShaderColor_def SetShaderTexture_def
        SetTextureUVScale_def Let_def)

theorem null_shader_manager_guarded_witness:
  "m_pShaderManager (SceneManager_new NULL [g_UseTextureName \<mapsto> IntValue 1]) = NULL
   \<and> SetTransformations (Vec3 2 1 1) 0 90 0 (Vec3 0 0 0)
        (SceneManager_new NULL [g_UseTextureName \<mapsto> IntValue 1])
      = SceneManager_new NULL [g_UseTextureName \<mapsto> IntValue 1]
   \<and> SetShaderColor 1 0 0 1 (SceneManager_new NULL [g_UseTextureName \<mapsto> IntValue 1])
      = SceneManager_new NULL [g_UseTextureName \<mapsto> IntValue 1]
   \<and> SetShaderTexture ''table'' (SceneManager_new NULL [g_UseTextureName \<mapsto> IntValue 1])
      = Inr (SceneManager_new NULL [g_UseTextureName \<mapsto> IntValue 1])
   \<and> SetTextureUVScale 5 1 (SceneManager_new NULL [g_UseTextureName \<mapsto> IntValue 1])
      = SceneManager_new NULL [g_UseTextureName \<mapsto> IntValue 1]"
proof -
  have h: "m_pShaderManager (SceneManager_new NULL [g_UseTextureName \<mapsto> IntValue 1]) = NULL"
    by (simp add: SceneManager_new_def)
  show ?thesis
    using h null_shader_manager_guarded [OF h] by simp
qed


text \<open>
  C2. \<^verbatim>\<open>SetShaderMaterial\<close> with an empty material list changes nothing. With the five
  presets of \<^verbatim>\<open>DefineObjectMaterials\<close> and the tag \<^verbatim>\<open>"marble"\<close>, which none of them
  carries, \<^verbatim>\<open>FindMaterial\<close> reports success and leaves the caller's material as it
  was, and \<^verbatim>\<open>SetShaderMaterial\<close> then writes the five material uniforms from that
  never-assigned local: uniforms that were unset before the call are set after it.
\<close>

theorem SetShaderMaterial_unknown_tag:
  "SetShaderMaterial uninit tg (s\<lparr> m_objectMaterials := [] \<rparr>)
      = Inr (s\<lparr> m_objectMaterials := [] \<rparr>)
   \<and> FindMaterial ''marble'' uninit
        (DefineObjectMaterials (SceneManager_new ShaderManager_object Map.empty))
      = (True, uninit)
   \<and> uniforms (DefineObjectMaterials (SceneManager_new ShaderManager_object Map.empty))
        ''material.shininess'' = None
   \<and> (\<exists>s'. SetShaderMaterial uninit ''marble''
               (DefineObjectMaterials (SceneManager_new ShaderManager_object Map.empty))
               = Inr s'
          \<and> uniforms s' ''material.ambientColor'' = Some (Vec3Value (ambientColor uninit))
          \<and> uniforms s' ''material.ambientStrength''
               = Some (FloatValue (ambientStrength uninit))
          \<and> uniforms s' ''material.diffuseColor'' = Some (Vec3Value (diffuseColor uninit))
          \<and> uniforms s' ''material.specularColor'' = Some (Vec3Value (specularColor uninit))
          \<and> uniforms s' ''material.shininess'' = Some (FloatValue (shininess uninit)))"
proof (intro conjI)
  define s0 where "s0 = DefineObjectMaterials (SceneManager_new ShaderManager_object Map.empty)"
  have tags: "map material_tag (m_objectMaterials s0)
                = [''metal'', ''wood'', ''glass'', ''cheese'', ''backdrop'']"
    unfolding s0_def by (rule DefineObjectMaterials_tags)
  have len: "length (m_objectMaterials s0) = 5"
  proof -
    have "length (map material_tag (m_objectMaterials s0)) = 5" by (simp only: tags) simp
    then show ?thesis by simp
  qed
  have none: "\<And>j. j < length (m_objectMaterials s0)
                  \<Longrightarrow> material_tag (m_objectMaterials s0 ! j) \<noteq> ''marble''"
  proof -
    fix j assume j: "j < length (m_objectMaterials s0)"
    then have "material_tag (m_objectMaterials s0 ! j) = map material_tag (m_objectMaterials s0) ! j"
      by simp
    also have "\<dots> \<in> set [''metal'', ''wood'', ''glass'', ''cheese'', ''backdrop'']"
      using j tags by (metis length_map nth_mem)
    finally show "material_tag (m_objectMaterials s0 ! j) \<noteq> ''marble''" by auto
  qed
  have scan: "FindMaterial_loop (m_objectMaterials s0) ''marble'' uninit 0 False = uninit"
    using none by (intro FindMaterial_loop_miss) simp
  have find: "FindMaterial ''marble'' uninit s0 = (True, uninit)"
    using len scan by (simp add: FindMaterial_def)
  have ptr: "m_pShaderManager s0 \<noteq> NULL"
    by (simp add: s0_def DefineObjectMaterials_def SceneManager_new_def)
  show "SetShaderMaterial uninit tg (s\<lparr> m_objectMaterials := [] \<rparr>)
      = Inr (s\<lparr> m_objectMaterials := [] \<rparr>)"
    by (simp add: SetShaderMaterial_def)
  show "FindMaterial ''marble'' uninit
        (DefineObjectMaterials (SceneManager_new ShaderManager_object Map.empty))
      = (True, uninit)"
    using find by (simp add: s0_def)
  show "uniforms (DefineObjectMaterials (SceneManager_new ShaderManager_object Map.empty))
        ''material.shininess'' = None"
    by (simp add: DefineObjectMaterials_def SceneManager_new_def)
  have "\<exists>s'. SetShaderMaterial uninit ''marble'' s0 = Inr s'
          \<and> uniforms s' ''material.ambientColor'' = Some (Vec3Value (ambientColor uninit))
          \<and> uniforms s' ''material.ambientStrength''
               = Some (FloatValue (ambientStrength uninit))
          \<and> uniforms s' ''material.diffuseColor'' = Some (Vec3Value (diffuseColor uninit))
          \<and> uniforms s' ''material.specularColor'' = Some (Vec3Value (specularColor uninit))
          \<and> uniforms s' ''material.shininess'' = Some (FloatValue (shininess uninit))"
    using len find ptr by (simp add: SetShaderMaterial_def Let_def setters)
  then show "\<exists>s'. SetShaderMaterial uninit ''marble''
               (DefineObjectMaterials (SceneManager_new ShaderManager_object Map.empty))
               = Inr s'
          \<and> uniforms s' ''material.ambientColor'' = Some (Vec3Value (ambientColor uninit))
          \<and> uniforms s' ''material.ambientStrength''
               = Some (FloatValue (ambientStrength uninit))
          \<and> uniforms s' ''material.diffuseColor'' = Some (Vec3Value (diffuseColor uninit))
          \<and> uniforms s' ''material.specularColor'' = Some (Vec3Value (specularColor uninit))
          \<and> uniforms s' ''material.shininess'' = Some (FloatValue (shininess uninit))"
    by (simp add: s0_def)
qed


text \<open>
  C3 as the code has it. \<^verbatim>\<open>DestroyGLTextures\<close> returns normally on a registry that
  satisfies its invariant and leaves the slot count and every tag as they were, so
  \<^verbatim>\<open>FindTextureSlot\<close> answers every tag as it did before the call.
\<close>

theorem DestroyGLTextures_keeps_slots:
  assumes "registry_ok s"
  shows "\<exists>s'. DestroyGLTextures gen s = Inr s'
           \<and> m_loadedTextures s' = m_loadedTextures s
           \<and> map tag (m_textureIDs s') = map tag (m_textureIDs s)
           \<and> FindTextureSlot s' tg = FindTextureSlot s tg"
proof -
  obtain s' where s': "DestroyGLTextures_loop gen 0 s = Inr s'"
      "m_loadedTextures s' = m_loadedTextures s"
      "map tag (m_textureIDs s') = map tag (m_textureIDs s)"
    using DestroyGLTextures_loop_frame [OF assms, of 0 gen] by auto
  have "FindTextureSlot s' tg = FindTextureSlot s tg"
    using s'(2,3) by (rule FindTextureSlot_cong)
  then show ?thesis using s' by (simp add: DestroyGLTextures_def)
qed

theorem DestroyGLTextures_keeps_slots_witness:
  "registry_ok
     \<lparr> m_pShaderManager = ShaderManager_object,
          m_textureIDs = \<lparr> tag = ''table'', ID = 7 \<rparr> # replicate 15 \<lparr> tag = ''/0'', ID = - 1 \<rparr>,
          m_loadedTextures = 1, m_objectMaterials = [], uniforms = Map.empty, draws = [] \<rparr>
   \<and> FindTextureSlot
       \<lparr> m_pShaderManager = ShaderManager_object,
          m_textureIDs = \<lparr> tag = ''table'', ID = 7 \<rparr> # replicate 15 \<lparr> tag = ''/0'', ID = - 1 \<rparr>,
          m_loadedTextures = 1, m_objectMaterials = [], uniforms = Map.empty, draws = [] \<rparr> ''table'' = Inr 0
   \<and> (\<exists>s'. DestroyGLTextures of_int
         \<lparr> m_pShaderManager = ShaderManager_object,
          m_textureIDs = \<lparr> tag = ''table'', ID = 7 \<rparr> # replicate 15 \<lparr> tag = ''/0'', ID = - 1 \<rparr>,
          m_loadedTextures = 1, m_objectMaterials = [], uniforms = Map.empty, draws = [] \<rparr> = Inr s'
          \<and> FindTextureSlot s' ''table'' = Inr 0)"
proof -
  have ok1: "registry_ok
     \<lparr> m_pShaderManager = ShaderManager_object,
          m_textureIDs = \<lparr> tag = ''table'', ID = 7 \<rparr> # replicate 15 \<lparr> tag = ''/0'', ID = - 1 \<rparr>,
          m_loadedTextures = 1, m_objectMaterials = [], uniforms = Map.empty, draws = [] \<rparr>"
    by (simp add: registry_ok_def)
  have slot: "FindTextureSlot
       \<lparr> m_pShaderManager = ShaderManager_object,
          m_textureIDs = \<lparr> tag = ''table'', ID = 7 \<rparr> # replicate 15 \<lparr> tag = ''/0'', ID = - 1 \<rparr>,
          m_loadedTextures = 1, m_objectMaterials = [], uniforms = Map.empty, draws = [] \<rparr> ''table'' = Inr 0"
    by (simp add: FindTextureSlot_def FindTextureSlot_loop.simps)
  show ?thesis
    using ok1 slot DestroyGLTextures_keeps_slots [OF ok1, of of_int "''table''"] by auto
qed

text \<open>C3 as stated fails: one texture loaded under \<^verbatim>\<open>"table"\<close> with handle 7; after
  \<^verbatim>\<open>DestroyGLTextures\<close> (the generated name being 0) the tag still resolves to slot 0,
  and the handle lookup gives the regenerated name, neither being \<open>-1\<close>.\<close>

theorem DestroyGLTextures_counterexample:
  "CreateGLTexture (Some \<lparr> width = 8, height = 8, colorChannels = 3 \<rparr>) 7 ''table''
       (SceneManager_new ShaderManager_object Map.empty)
     = Inr (True,
        \<lparr> m_pShaderManager = ShaderManager_object,
          m_textureIDs = \<lparr> tag = ''table'', ID = 7 \<rparr> # replicate 15 \<lparr> tag = ''/0'', ID = - 1 \<rparr>,
          m_loadedTextures = 1, m_objectMaterials = [], uniforms = Map.empty, draws = [] \<rparr>)
   \<and> DestroyGLTextures of_int
        \<lparr> m_pShaderManager = ShaderManager_object,
          m_textureIDs = \<lparr> tag = ''table'', ID = 7 \<rparr> # replicate 15 \<lparr> tag = ''/0'', ID = - 1 \<rparr>,
          m_loadedTextures = 1, m_objectMaterials = [], uniforms = Map.empty, draws = [] \<rparr>
     = Inr
        \<lparr> m_pShaderManager = ShaderManager_object,
          m_textureIDs = \<lparr> tag = ''table'', ID = 0 \<rparr> # replicate 15 \<lparr> tag = ''/0'', ID = - 1 \<rparr>,
          m_loadedTextures = 1, m_objectMaterials = [], uniforms = Map.empty, draws = [] \<rparr>
   \<and> FindTextureSlot
        \<lparr> m_pShaderManager = ShaderManager_object,
          m_textureIDs = \<lparr> tag = ''table'', ID = 0 \<rparr> # replicate 15 \<lparr> tag = ''/0'', ID = - 1 \<rparr>,
          m_loadedTextures = 1, m_objectMaterials = [], uniforms = Map.empty, draws = [] \<rparr> ''table'' = Inr 0
   \<and> FindTextureSlot
        \<lparr> m_pShaderManager = ShaderManager_object,
          m_textureIDs = \<lparr> tag = ''table'', ID = 0 \<rparr> # replicate 15 \<lparr> tag = ''/0'', ID = - 1 \<rparr>,
          m_loadedTextures = 1, m_objectMaterials = [], uniforms = Map.empty, draws = [] \<rparr> ''table'' \<noteq> Inr (- 1)
   \<and> FindTextureID
        \<lparr> m_pShaderManager = ShaderManager_object,
          m_textureIDs = \<lparr> tag = ''table'', ID = 0 \<rparr> # replicate 15 \<lparr> tag = ''/0'', ID = - 1 \<rparr>,
          m_loadedTextures = 1, m_objectMaterials = [], uniforms = Map.empty, draws = [] \<rparr> ''table'' \<noteq> Inr (- 1)"
proof -
  have r: "replicate 16 \<lparr> tag = ''/0'', ID = - 1 :: 32 word \<rparr>
             = \<lparr> tag = ''/0'', ID = - 1 \<rparr> # replicate 15 \<lparr> tag = ''/0'', ID = - 1 \<rparr>"
    by (simp add: eval_nat_numeral)
  show ?thesis
    by (simp add: CreateGLTexture_def SceneManager_new_def DestroyGLTextures_def
          DestroyGLTextures_loop.simps FindTextureSlot_def FindTextureSlot_loop.simps
          FindTextureID_def FindTextureID_loop.simps Let_def r)
qed

text \<open>
  C4 for a run that fits the array. On a freshly constructed scene manager, at most
  sixteen \<^verbatim>\<open>CreateGLTexture\<close> calls with pairwise distinct tags and RGB or RGBA images
  all succeed, and afterwards \<^verbatim>\<open>FindTextureSlot\<close> with the tag of call \<open>k\<close> (counted
  from 0) returns \<open>k\<close> and \<^verbatim>\<open>FindTextureID\<close> returns the handle that call stored.
\<close>

theorem load_then_find:
  assumes "length calls \<le> 16"
    and "distinct (map (\<lambda>c. snd (snd c)) calls)"
    and "\<forall>c \<in> set calls. valid_image (fst c)"
  shows "\<exists>s'. CreateGLTextures calls (SceneManager_new p us)
                 = Inr (replicate (length calls) True, s')
           \<and> m_loadedTextures s' = int (length calls)
           \<and> (\<forall>k. k < length calls \<longrightarrow>
                 FindTextureSlot s' (snd (snd (calls ! k))) = Inr (int k)
                 \<and> FindTextureID s' (snd (snd (calls ! k)))
                     = Inr (sint (fst (snd (calls ! k)))))"
proof -
  have zero: "m_loadedTextures (SceneManager_new p us) = 0"
    by (simp add: SceneManager_new_def)
  have "\<exists>s'. CreateGLTextures calls (SceneManager_new p us)
                 = Inr (replicate (length calls) True, s')
           \<and> registry_ok s'
           \<and> m_loadedTextures s' = m_loadedTextures (SceneManager_new p us) + int (length calls)
           \<and> (\<forall>i. i < nat (m_loadedTextures (SceneManager_new p us)) \<longrightarrow>
                 m_textureIDs s' ! i = m_textureIDs (SceneManager_new p us) ! i)
           \<and> (\<forall>k. k < length calls \<longrightarrow>
                 m_textureIDs s' ! (nat (m_loadedTextures (SceneManager_new p us)) + k)
                   = \<lparr> tag = snd (snd (calls ! k)), ID = fst (snd (calls ! k)) \<rparr>)"
  proof (rule CreateGLTextures_fill)
    show "registry_ok (SceneManager_new p us)" by (rule SceneManager_new_ok)
    show "\<And>c. c \<in> set calls \<Longrightarrow> valid_image (fst c)" using assms(3) by blast
    show "m_loadedTextures (SceneManager_new p us) + int (length calls) \<le> 16"
      using assms(1) zero by simp
  qed
  then obtain s' where run: "CreateGLTextures calls (SceneManager_new p us)
                 = Inr (replicate (length calls) True, s')"
    and ok': "registry_ok s'"
    and cnt: "m_loadedTextures s' = int (length calls)"
    and slots: "\<And>k. k < length calls \<Longrightarrow>
                 m_textureIDs s' ! k = \<lparr> tag = snd (snd (calls ! k)), ID = fst (snd (calls ! k)) \<rparr>"
    unfolding zero by auto
  have find: "FindTextureSlot s' (snd (snd (calls ! k))) = Inr (int k)
              \<and> FindTextureID s' (snd (snd (calls ! k))) = Inr (sint (fst (snd (calls ! k))))"
    if k: "k < length calls" for k
  proof -
    have lt: "int k < m_loadedTextures s'" using k cnt by simp
    have hit: "tag (m_textureIDs s' ! nat (int k)) = snd (snd (calls ! k))"
      using slots [OF k] by simp
    have before: "tag (m_textureIDs s' ! nat j) \<noteq> snd (snd (calls ! k))"
      if "0 \<le> j" and "j < int k" for j
    proof -
      have j: "nat j < k" using that by linarith
      then have jl: "nat j < length calls" using k by simp
      have "(map (\<lambda>c. snd (snd c)) calls ! nat j = map (\<lambda>c. snd (snd c)) calls ! k)
              = (nat j = k)"
        using assms(2) jl k by (intro nth_eq_iff_index_eq) simp_all
      then have "snd (snd (calls ! nat j)) \<noteq> snd (snd (calls ! k))"
        using j jl k by simp
      then show ?thesis using slots [OF jl] by simp
    qed
    have a: "FindTextureSlot_loop s' (snd (snd (calls ! k))) (- 1) 0 False = Inr (int k)"
      using ok' lt hit before by (intro FindTextureSlot_loop_first) simp_all
    have b: "FindTextureID_loop s' (snd (snd (calls ! k))) (- 1) 0 False
               = Inr (sint (ID (m_textureIDs s' ! nat (int k))))"
      using ok' lt hit before by (intro FindTextureID_loop_first) simp_all
    have c: "ID (m_textureIDs s' ! nat (int k)) = fst (snd (calls ! k))"
      using slots [OF k] by simp
    show ?thesis using a b c by (simp add: FindTextureSlot_def FindTextureID_def)
  qed
  show ?thesis using run cnt find by blast
qed

theorem load_then_find_witness:
  "length [(Some \<lparr> width = 8, height = 8, colorChannels = 3 \<rparr>, 7 :: 32 word, ''table''),
           (Some \<lparr> width = 4, height = 4, colorChannels = 4 \<rparr>, 9, ''backdrop'')] \<le> 16
   \<and> distinct (map (\<lambda>c. snd (snd c))
        [(Some \<lparr> width = 8, height = 8, colorChannels = 3 \<rparr>, 7 :: 32 word, ''table''),
         (Some \<lparr> width = 4, height = 4, colorChannels = 4 \<rparr>, 9, ''backdrop'')])
   \<and> list_all (\<lambda>c. valid_image (fst c))
        [(Some \<lparr> width = 8, height = 8, colorChannels = 3 \<rparr>, 7 :: 32 word, ''table''),
         (Some \<lparr> width = 4, height = 4, colorChannels = 4 \<rparr>, 9, ''backdrop'')]
   \<and> (\<exists>s'. CreateGLTextures
               [(Some \<lparr> width = 8, height = 8, colorChannels = 3 \<rparr>, 7, ''table''),
                (Some \<lparr> width = 4, height = 4, colorChannels = 4 \<rparr>, 9, ''backdrop'')]
               (SceneManager_new ShaderManager_object Map.empty) = Inr ([True, True], s')
          \<and> FindTextureSlot s' ''table'' = Inr 0
          \<and> FindTextureID s' ''table'' = Inr 7
          \<and> FindTextureSlot s' ''backdrop'' = Inr 1
          \<and> FindTextureID s' ''backdrop'' = Inr 9)"
proof -
  define calls :: "(image option \<times> 32 word \<times> string) list" where
    "calls = [(Some \<lparr> width = 8, height = 8, colorChannels = 3 \<rparr>, 7, ''table''),
              (Some \<lparr> width = 4, height = 4, colorChannels = 4 \<rparr>, 9, ''backdrop'')]"
  have h1: "length calls \<le> 16" by (simp add: calls_def)
  have h2: "distinct (map (\<lambda>c. snd (snd c)) calls)" by (simp add: calls_def)
  have h3: "\<forall>c \<in> set calls. valid_image (fst c)" by (simp add: calls_def valid_image_def)
  have h3': "list_all (\<lambda>c. valid_image (fst c)) calls" by (simp add: calls_def valid_image_def)
  obtain s' where run: "CreateGLTextures calls (SceneManager_new ShaderManager_object Map.empty)
                 = Inr (replicate (length calls) True, s')"
    and find: "\<And>k. k < length calls \<Longrightarrow>
                 FindTextureSlot s' (snd (snd (calls ! k))) = Inr (int k)
                 \<and> FindTextureID s' (snd (snd (calls ! k)))
                     = Inr (sint (fst (snd (calls ! k))))"
    using load_then_find [OF h1 h2 h3, of ShaderManager_object Map.empty] by blast
  have f0: "FindTextureSlot s' ''table'' = Inr 0 \<and> FindTextureID s' ''table'' = Inr 7"
    using find [of 0] by (simp add: calls_def)
  have f1: "FindTextureSlot s' ''backdrop'' = Inr 1 \<and> FindTextureID s' ''backdrop'' = Inr 9"
    using find [of 1] by (simp add: calls_def)
  have run': "CreateGLTextures calls (SceneManager_new ShaderManager_object Map.empty)
                 = Inr ([True, True], s')"
    using run by (simp add: calls_def)
  show ?thesis
    unfolding calls_def [symmetric] using h1 h2 h3' run' f0 f1 by blast
qed

text \<open>C4 as stated fails on a run longer than the array: seventeen calls with distinct
  tags and RGB or RGBA images end in the store past the last slot.\<close>

theorem load_then_find_counterexample:
  "distinct (map (\<lambda>c. snd (snd c))
     [(Some \<lparr> width = 8, height = 8, colorChannels = 3 \<rparr>, 1 :: 32 word, ''t00''),
      (Some \<lparr> width = 8, height = 8, colorChannels = 4 \<rparr>, 2, ''t01''),
      (Some \<lparr> width = 8, height = 8, colorChannels = 3 \<rparr>, 3, ''t02''),
      (Some \<lparr> width = 8, height = 8, colorChannels = 4 \<rparr>, 4, ''t03''),
      (Some \<lparr> width = 8, height = 8, colorChannels = 3 \<rparr>, 5, ''t04''),
      (Some \<lparr> width = 8, height = 8, colorChannels = 4 \<rparr>, 6, ''t05''),
      (Some \<lparr> width = 8, height = 8, colorChannels = 3 \<rparr>, 7, ''t06''),
      (Some \<lparr> width = 8, height = 8, colorChannels = 4 \<rparr>, 8, ''t07''),
      (Some \<lparr> width = 8, height = 8, colorChannels = 3 \<rparr>, 9, ''t08''),
      (Some \<lparr> width = 8, height = 8, colorChannels = 4 \<rparr>, 10, ''t09''),
      (Some \<lparr> width = 8, height = 8, colorChannels = 3 \<rparr>, 11, ''t10''),
      (Some \<lparr> width = 8, height = 8, colorChannels = 4 \<rparr>, 12, ''t11''),
      (Some \<lparr> width = 8, height = 8, colorChannels = 3 \<rparr>, 13, ''t12''),
      (Some \<lparr> width = 8, height = 8, colorChannels = 4 \<rparr>, 14, ''t13''),
      (Some \<lparr> width = 8, height = 8, colorChannels = 3 \<rparr>, 15, ''t14''),
      (Some \<lparr> width = 8, height = 8, colorChannels = 4 \<rparr>, 16, ''t15''),
      (Some \<lparr> width = 8, height = 8, colorChannels = 3 \<rparr>, 17, ''t16'')])
   \<and> list_all (\<lambda>c. valid_image (fst c))
     [(Some \<lparr> width = 8, height = 8, colorChannels = 3 \<rparr>, 1 :: 32 word, ''t00''),
      (Some \<lparr> width = 8, height = 8, colorChannels = 4 \<rparr>, 2, ''t01''),
      (Some \<lparr> width = 8, height = 8, colorChannels = 3 \<rparr>, 3, ''t02''),
      (Some \<lparr> width = 8, height = 8, colorChannels = 4 \<rparr>, 4, ''t03''),
      (Some \<lparr> width = 8, height = 8, colorChannels = 3 \<rparr>, 5, ''t04''),
      (Some \<lparr> width = 8, height = 8, colorChannels = 4 \<rparr>, 6, ''t05''),
      (Some \<lparr> width = 8, height = 8, colorChannels = 3 \<rparr>, 7, ''t06''),
      (Some \<lparr> width = 8, height = 8, colorChannels = 4 \<rparr>, 8, ''t07''),
      (Some \<lparr> width = 8, height = 8, colorChannels = 3 \<rparr>, 9, ''t08''),
      (Some \<lparr> width = 8, height = 8, colorChannels = 4 \<rparr>, 10, ''t09''),
      (Some \<lparr> width = 8, height = 8, colorChannels = 3 \<rparr>, 11, ''t10''),
      (Some \<lparr> width = 8, height = 8, colorChannels = 4 \<rparr>, 12, ''t11''),
      (Some \<lparr> width = 8, height = 8, colorChannels = 3 \<rparr>, 13, ''t12''),
      (Some \<lparr> width = 8, height = 8, colorChannels = 4 \<rparr>, 14, ''t13''),
      (Some \<lparr> width = 8, height = 8, colorChannels = 3 \<rparr>, 15, ''t14''),
      (Some \<lparr> width = 8, height = 8, colorChannels = 4 \<rparr>, 16, ''t15''),
      (Some \<lparr> width = 8, height = 8, colorChannels = 3 \<rparr>, 17, ''t16'')]
   \<and> CreateGLTextures
     [(Some \<lparr> width = 8, height = 8, colorChannels = 3 \<rparr>, 1 :: 32 word, ''t00''),
      (Some \<lparr> width = 8, height = 8, colorChannels = 4 \<rparr>, 2, ''t01''),
      (Some \<lparr> width = 8, height = 8, colorChannels = 3 \<rparr>, 3, ''t02''),
      (Some \<lparr> width = 8, height = 8, colorChannels = 4 \<rparr>, 4, ''t03''),
      (Some \<lparr> width = 8, height = 8, colorChannels = 3 \<rparr>, 5, ''t04''),
      (Some \<lparr> width = 8, height = 8, colorChannels = 4 \<rparr>, 6, ''t05''),
      (Some \<lparr> width = 8, height = 8, colorChannels = 3 \<rparr>, 7, ''t06''),
      (Some \<lparr> width = 8, height = 8, colorChannels = 4 \<rparr>, 8, ''t07''),
      (Some \<lparr> width = 8, height = 8, colorChannels = 3 \<rparr>, 9, ''t08''),
      (Some \<lparr> width = 8, height = 8, colorChannels = 4 \<rparr>, 10, ''t09''),
      (Some \<lparr> width = 8, height = 8, colorChannels = 3 \<rparr>, 11, ''t10''),
      (Some \<lparr> width = 8, height = 8, colorChannels = 4 \<rparr>, 12, ''t11''),
      (Some \<lparr> width = 8, height = 8, colorChannels = 3 \<rparr>, 13, ''t12''),
      (Some \<lparr> width = 8, height = 8, colorChannels = 4 \<rparr>, 14, ''t13''),
      (Some \<lparr> width = 8, height = 8, colorChannels = 3 \<rparr>, 15, ''t14''),
      (Some \<lparr> width = 8, height = 8, colorChannels = 4 \<rparr>, 16, ''t15''),
      (Some \<lparr> width = 8, height = 8, colorChannels = 3 \<rparr>, 17, ''t16'')]
     (SceneManager_new ShaderManager_object Map.empty) = Inl OutOfBounds"
proof -
  define calls :: "(image option \<times> 32 word \<times> string) list" where
    "calls = [(Some \<lparr> width = 8, height = 8, colorChannels = 3 \<rparr>, 1 :: 32 word, ''t00''),
      (Some \<lparr> width = 8, height = 8, colorChannels = 4 \<rparr>, 2, ''t01''),
      (Some \<lparr> width = 8, height = 8, colorChannels = 3 \<rparr>, 3, ''t02''),
      (Some \<lparr> width = 8, height = 8, colorChannels = 4 \<rparr>, 4, ''t03''),
      (Some \<lparr> width = 8, height = 8, colorChannels = 3 \<rparr>, 5, ''t04''),
      (Some \<lparr> width = 8, height = 8, colorChannels = 4 \<rparr>, 6, ''t05''),
      (Some \<lparr> width = 8, height = 8, colorChannels = 3 \<rparr>, 7, ''t06''),
      (Some \<lparr> width = 8, height = 8, colorChannels = 4 \<rparr>, 8, ''t07''),
      (Some \<lparr> width = 8, height = 8, colorChannels = 3 \<rparr>, 9, ''t08''),
      (Some \<lparr> width = 8, height = 8, colorChannels = 4 \<rparr>, 10, ''t09''),
      (Some \<lparr> width = 8, height = 8, colorChannels = 3 \<rparr>, 11, ''t10''),
      (Some \<lparr> width = 8, height = 8, colorChannels = 4 \<rparr>, 12, ''t11''),
      (Some \<lparr> width = 8, height = 8, colorChannels = 3 \<rparr>, 13, ''t12''),
      (Some \<lparr> width = 8, height = 8, colorChannels = 4 \<rparr>, 14, ''t13''),
      (Some \<lparr> width = 8, height = 8, colorChannels = 3 \<rparr>, 15, ''t14''),
      (Some \<lparr> width = 8, height = 8, colorChannels = 4 \<rparr>, 16, ''t15''),
      (Some \<lparr> width = 8, height = 8, colorChannels = 3 \<rparr>, 17, ''t16'')]"
  have d: "distinct (map (\<lambda>c. snd (snd c)) calls)" by (simp add: calls_def)
  have v: "list_all (\<lambda>c. valid_image (fst c)) calls" by (simp add: calls_def valid_image_def)
  have "CreateGLTextures calls (SceneManager_new ShaderManager_object Map.empty)
          = Inl OutOfBounds"
  proof (rule CreateGLTextures_overflow)
    show "registry_ok (SceneManager_new ShaderManager_object Map.empty)"
      by (rule SceneManager_new_ok)
    show "\<And>c. c \<in> set calls \<Longrightarrow> valid_image (fst c)"
      using v by (simp add: list_all_iff)
    show "16 < m_loadedTextures (SceneManager_new ShaderManager_object Map.empty)
                 + int (length calls)"
      by (simp add: SceneManager_new_def calls_def)
  qed
  then show ?thesis unfolding calls_def [symmetric] using d v by simp
qed

text \<open>
  C9 at the seventeenth load. Sixteen loads of an RGB image on a freshly constructed
  scene manager succeed and bring \<^verbatim>\<open>m_loadedTextures\<close> to 16; one more call is not
  answered with \<^verbatim>\<open>false\<close>: it reaches the store into \<^verbatim>\<open>m_textureIDs[16]\<close>, past the
  array.
\<close>

theorem CreateGLTexture_seventeenth:
  "(\<exists>s. CreateGLTextures
           (replicate 16 (Some \<lparr> width = 8, height = 8, colorChannels = 3 \<rparr>, 1, ''wood''))
           (SceneManager_new ShaderManager_object Map.empty) = Inr (replicate 16 True, s)
        \<and> m_loadedTextures s = 16
        \<and> CreateGLTexture (Some \<lparr> width = 8, height = 8, colorChannels = 3 \<rparr>) 1 ''wood'' s
            = Inl OutOfBounds)
   \<and> CreateGLTextures
       (replicate 17 (Some \<lparr> width = 8, height = 8, colorChannels = 3 \<rparr>, 1, ''wood''))
       (SceneManager_new ShaderManager_object Map.empty) = Inl OutOfBounds"
proof (intro conjI)
  define c :: "image option \<times> 32 word \<times> string" where
    "c = (Some \<lparr> width = 8, height = 8, colorChannels = 3 \<rparr>, 1, ''wood'')"
  have v: "valid_image (fst c)" by (simp add: c_def valid_image_def)
  have zero: "m_loadedTextures (SceneManager_new ShaderManager_object Map.empty) = 0"
    by (simp add: SceneManager_new_def)
  have "\<exists>s'. CreateGLTextures (replicate 16 c) (SceneManager_new ShaderManager_object Map.empty)
                 = Inr (replicate (length (replicate 16 c)) True, s')
           \<and> registry_ok s'
           \<and> m_loadedTextures s'
               = m_loadedTextures (SceneManager_new ShaderManager_object Map.empty)
                   + int (length (replicate 16 c))
           \<and> (\<forall>i. i < nat (m_loadedTextures (SceneManager_new ShaderManager_object Map.empty)) \<longrightarrow>
                 m_textureIDs s' ! i
                   = m_textureIDs (SceneManager_new ShaderManager_object Map.empty) ! i)
           \<and> (\<forall>k. k < length (replicate 16 c) \<longrightarrow>
                 m_textureIDs s'
                   ! (nat (m_loadedTextures (SceneManager_new ShaderManager_object Map.empty)) + k)
                   = \<lparr> tag = snd (snd (replicate 16 c ! k)), ID = fst (snd (replicate 16 c ! k)) \<rparr>)"
  proof (rule CreateGLTextures_fill)
    show "registry_ok (SceneManager_new ShaderManager_object Map.empty)"
      by (rule SceneManager_new_ok)
    show "\<And>x. x \<in> set (replicate 16 c) \<Longrightarrow> valid_image (fst x)" using v by simp
    show "m_loadedTextures (SceneManager_new ShaderManager_object Map.empty)
            + int (length (replicate 16 c)) \<le> 16"
      by (simp add: zero)
  qed
  then obtain s where run: "CreateGLTextures (replicate 16 c)
        (SceneManager_new ShaderManager_object Map.empty) = Inr (replicate 16 True, s)"
    and ok: "registry_ok s" and cnt: "m_loadedTextures s = 16"
    unfolding zero by auto
  have "CreateGLTexture (fst c) 1 ''wood'' s = Inl OutOfBounds"
    by (rule CreateGLTexture_full [OF ok cnt v])
  then show "\<exists>s. CreateGLTextures
           (replicate 16 (Some \<lparr> width = 8, height = 8, colorChannels = 3 \<rparr>, 1, ''wood''))
           (SceneManager_new ShaderManager_object Map.empty) = Inr (replicate 16 True, s)
        \<and> m_loadedTextures s = 16
        \<and> CreateGLTexture (Some \<lparr> width = 8, height = 8, colorChannels = 3 \<rparr>) 1 ''wood'' s
            = Inl OutOfBounds"
    using run cnt unfolding c_def by auto
  have "CreateGLTextures (replicate 17 c) (SceneManager_new ShaderManager_object Map.empty)
          = Inl OutOfBounds"
  proof (rule CreateGLTextures_overflow)
    show "registry_ok (SceneManager_new ShaderManager_object Map.empty)"
      by (rule SceneManager_new_ok)
    show "\<And>x. x \<in> set (replicate 17 c) \<Longrightarrow> valid_image (fst x)" using v by simp
    show "16 < m_loadedTextures (SceneManager_new ShaderManager_object Map.empty)
                 + int (length (replicate 17 c))"
      by (simp add: zero)
  qed
  then show "CreateGLTextures
       (replicate 17 (Some \<lparr> width = 8, height = 8, colorChannels = 3 \<rparr>, 1, ''wood''))
       (SceneManager_new ShaderManager_object Map.empty) = Inl OutOfBounds"
    unfolding c_def .
qed



text \<open>
  C8. With a shader manager attached and a registry that satisfies its invariant, a
  render pass runs \<^verbatim>\<open>RenderTable\<close>, \<^verbatim>\<open>RenderBackdrop\<close>, \<^verbatim>\<open>RenderCheeseWheel\<close>,
  \<^verbatim>\<open>RenderBook\<close>, \<^verbatim>\<open>RenderWineGlass\<close> and \<^verbatim>\<open>RenderWineBottle\<close> in this order, each
  on the state the one before left, and all return normally. Each routine appends its
  own draw requests, told apart by the model matrix and the colour or texture in force
  at the draw: the table one textured box, the backdrop one plane, the cheese wheel two
  textured cylinder parts, the book three boxes, the wine glass two cylinder parts, and
  the wine bottle exactly six requests: half-sphere, cylinder, half-sphere, cylinder,
  torus, torus.
\<close>

theorem RenderScene_order:
  assumes "m_pShaderManager s \<noteq> NULL" and "registry_ok s"
  shows "\<exists>tTable tSide tTop s1 s2 s3 s4 s5 s6 d1 d2 d3 d4 d5 d6.
           FindTextureSlot s ''table'' = Inr tTable
         \<and> FindTextureSlot s ''cheese_wheel_side'' = Inr tSide
         \<and> FindTextureSlot s ''cheese_wheel_top'' = Inr tTop
         \<and> RenderTable uninit s = Inr s1 \<and> draws s1 = draws s @ d1
         \<and> map sub_draw d1 =
               [(Box, Some (Mat4Value (modelView (Vec3 20.0 0.6 8.0) 0.0 0.0 0.0
                                         (Vec3 0.0 0.2 (- 0.9)))),
                 Textured tTable)]
         \<and> RenderBackdrop s1 = Inr s2 \<and> draws s2 = draws s1 @ d2
         \<and> map sub_draw d2 =
               [(Plane, Some (Mat4Value (modelView (Vec3 20.0 1.0 20.0) 90.0 0.0 0.0
                                           (Vec3 0.0 15.0 (- 10.0)))),
                 SolidColor (Vec4 0.75 0.75 0.75 1.0))]
         \<and> RenderCheeseWheel uninit s2 = Inr s3 \<and> draws s3 = draws s2 @ d3
         \<and> map sub_draw d3 =
               [(Cylinder False False True,
                 Some (Mat4Value (modelView (Vec3 1.1 0.8 0.9) 0.0 0.0 0.0 (Vec3 (- 1.0) 1.4 0.0))),
                 Textured tSide),
                (Cylinder True False False,
                 Some (Mat4Value (modelView (Vec3 1.1 0.8 0.9) 0.0 0.0 0.0 (Vec3 (- 1.0) 1.4 0.0))),
                 Textured tTop)]
         \<and> RenderBook uninit s3 = Inr s4 \<and> draws s4 = draws s3 @ d4
         \<and> map sub_draw d4 =
               [(Box,
                 Some (Mat4Value (modelView (Vec3 2.2 0.08 1.5) 0.0 (- 12.0) 0.0
                                    (Vec3 (- 1.2) 0.59 0.3))),
                 SolidColor (Vec4 1.0 0.5 0.1 1.0)),
                (Box,
                 Some (Mat4Value (modelView (Vec3 0.08 0.08 1.5) 0.0 (- 12.0) 0.0
                                    (Vec3 (- 2.3) 0.59 0.3))),
                 SolidColor (Vec4 0.9 0.4 0.05 1.0)),
                (Box,
                 Some (Mat4Value (modelView (Vec3 2.15 0.06 1.45) 0.0 (- 12.0) 0.0
                                    (Vec3 (- 1.2) 0.57 0.3))),
                 SolidColor (Vec4 0.95 0.95 0.9 1.0))]
         \<and> RenderWineGlass uninit s4 = Inr s5 \<and> draws s5 = draws s4 @ d5
         \<and> map sub_draw d5 =
               [(Cylinder False False True,
                 Some (Mat4Value (modelView (Vec3 1.0 2.0 1.0) 0.0 0.0 0.0 (Vec3 6.0 1.5 (- 1.5)))),
                 SolidColor (Vec4 0.7 0.7 0.8 0.3)),
                (Cylinder True False False,
                 Some (Mat4Value (modelView (Vec3 1.0 0.1 1.0) 0.0 0.0 0.0 (Vec3 6.0 0.55 (- 1.5)))),
                 SolidColor (Vec4 0.7 0.7 0.8 0.3))]
         \<and> RenderWineBottle uninit s5 = Inr s6 \<and> draws s6 = draws s5 @ d6
         \<and> map sub_draw d6 =
               [(HalfSphere,
                 Some (Mat4Value (modelView (Vec3 0.9 0.3 0.9) 0.0 0.0 180.0 (Vec3 4.0 0.9 (- 2.6)))),
                 SolidColor (Vec4 0.06 0.07 0.06 1.0)),
                (Cylinder False False True,
                 Some (Mat4Value (modelView (Vec3 0.9 4.0 0.9) 0.0 0.0 0.0 (Vec3 4.0 0.9 (- 2.6)))),
                 SolidColor (Vec4 0.06 0.07 0.06 1.0)),
                (HalfSphere,
                 Some (Mat4Value (modelView (Vec3 0.905 0.9 0.905) 0.0 (- 6.0) 0.0
                                    (Vec3 4.0 4.9 (- 2.6)))),
                 SolidColor (Vec4 0.06 0.07 0.06 1.0)),
                (Cylinder False False True,
                 Some (Mat4Value (modelView (Vec3 0.3 2.0 0.3) 0.0 0.0 0.0 (Vec3 4.0 5.6 (- 2.6)))),
                 SolidColor (Vec4 0.06 0.07 0.06 1.0)),
                (Torus,
                 Some (Mat4Value (modelView (Vec3 0.32 0.32 1.5) 90.0 0.0 0.0
                                    (Vec3 (- 1.8) 7.4 (- 2.6)))),
                 SolidColor (Vec4 0.06 0.07 0.06 1.0)),
                (Torus,
                 Some (Mat4Value (modelView (Vec3 0.28 0.28 0.4) 90.0 0.0 0.0
                                    (Vec3 (- 1.8) 7.6 (- 2.6)))),
                 SolidColor (Vec4 0.06 0.07 0.06 1.0))]
         \<and> RenderScene uninit s = Inr s6
         \<and> draws s6 = draws s @ d1 @ d2 @ d3 @ d4 @ d5 @ d6"
proof -
  obtain tTable where t0: "FindTextureSlot s ''table'' = Inr tTable"
    using FindTextureSlot_total [OF assms(2)] by blast
  obtain tSide where ts0: "FindTextureSlot s ''cheese_wheel_side'' = Inr tSide"
    using FindTextureSlot_total [OF assms(2)] by blast
  obtain tTop where tt0: "FindTextureSlot s ''cheese_wheel_top'' = Inr tTop"
    using FindTextureSlot_total [OF assms(2)] by blast
  obtain s1 d1 where s1: "RenderTable uninit s = Inr s1"
      "m_pShaderManager s1 = m_pShaderManager s" "m_textureIDs s1 = m_textureIDs s"
      "m_loadedTextures s1 = m_loadedTextures s" "draws s1 = draws s @ d1"
      "map sub_draw d1 =
               [(Box, Some (Mat4Value (modelView (Vec3 20.0 0.6 8.0) 0.0 0.0 0.0
                                         (Vec3 0.0 0.2 (- 0.9)))),
                 Textured tTable)]"
    using RenderTable_run [OF assms(1) t0, of uninit] by (elim exE conjE) (rule that)
  have p1: "m_pShaderManager s1 \<noteq> NULL" using s1(2) assms(1) by simp
  obtain s2 d2 where s2: "RenderBackdrop s1 = Inr s2"
      "m_pShaderManager s2 = m_pShaderManager s1" "m_textureIDs s2 = m_textureIDs s1"
      "m_loadedTextures s2 = m_loadedTextures s1" "draws s2 = draws s1 @ d2"
      "map sub_draw d2 =
               [(Plane, Some (Mat4Value (modelView (Vec3 20.0 1.0 20.0) 90.0 0.0 0.0
                                           (Vec3 0.0 15.0 (- 10.0)))),
                 SolidColor (Vec4 0.75 0.75 0.75 1.0))]"
    using RenderBackdrop_run [OF p1] by (elim exE conjE) (rule that)
  have p2: "m_pShaderManager s2 \<noteq> NULL" using s2(2) p1 by simp
  have ts2: "FindTextureSlot s2 ''cheese_wheel_side'' = Inr tSide"
    using FindTextureSlot_cong [of s2 s] s1(3,4) s2(3,4) ts0 by simp
  have tt2: "FindTextureSlot s2 ''cheese_wheel_top'' = Inr tTop"
    using FindTextureSlot_cong [of s2 s] s1(3,4) s2(3,4) tt0 by simp
  obtain s3 d3 where s3: "RenderCheeseWheel uninit s2 = Inr s3"
      "m_pShaderManager s3 = m_pShaderManager s2" "draws s3 = draws s2 @ d3"
      "map sub_draw d3 =
               [(Cylinder False False True,
                 Some (Mat4Value (modelView (Vec3 1.1 0.8 0.9) 0.0 0.0 0.0 (Vec3 (- 1.0) 1.4 0.0))),
                 Textured tSide),
                (Cylinder True False False,
                 Some (Mat4Value (modelView (Vec3 1.1 0.8 0.9) 0.0 0.0 0.0 (Vec3 (- 1.0) 1.4 0.0))),
                 Textured tTop)]"
    using RenderCheeseWheel_run [OF p2 ts2 tt2, of uninit] by (elim exE conjE) (rule that)
  have p3: "m_pShaderManager s3 \<noteq> NULL" using s3(2) p2 by simp
  obtain s4 d4 where s4: "RenderBook uninit s3 = Inr s4"
      "m_pShaderManager s4 = m_pShaderManager s3" "draws s4 = draws s3 @ d4"
      "map sub_draw d4 =
               [(Box,
                 Some (Mat4Value (modelView (Vec3 2.2 0.08 1.5) 0.0 (- 12.0) 0.0
                                    (Vec3 (- 1.2) 0.59 0.3))),
                 SolidColor (Vec4 1.0 0.5 0.1 1.0)),
                (Box,
                 Some (Mat4Value (modelView (Vec3 0.08 0.08 1.5) 0.0 (- 12.0) 0.0
                                    (Vec3 (- 2.3) 0.59 0.3))),
                 SolidColor (Vec4 0.9 0.4 0.05 1.0)),
                (Box,
                 Some (Mat4Value (modelView (Vec3 2.15 0.06 1.45) 0.0 (- 12.0) 0.0
                                    (Vec3 (- 1.2) 0.57 0.3))),
                 SolidColor (Vec4 0.95 0.95 0.9 1.0))]"
    using RenderBook_run [OF p3, of uninit] by (elim exE conjE) (rule that)
  have p4: "m_pShaderManager s4 \<noteq> NULL" using s4(2) p3 by simp
  obtain s5 d5 where s5: "RenderWineGlass uninit s4 = Inr s5"
      "m_pShaderManager s5 = m_pShaderManager s4" "draws s5 = draws s4 @ d5"
      "map sub_draw d5 =
               [(Cylinder False False True,
                 Some (Mat4Value (modelView (Vec3 1.0 2.0 1.0) 0.0 0.0 0.0 (Vec3 6.0 1.5 (- 1.5)))),
                 SolidColor (Vec4 0.7 0.7 0.8 0.3)),
                (Cylinder True False False,
                 Some (Mat4Value (modelView (Vec3 1.0 0.1 1.0) 0.0 0.0 0.0 (Vec3 6.0 0.55 (- 1.5)))),
                 SolidColor (Vec4 0.7 0.7 0.8 0.3))]"
    using RenderWineGlass_run [OF p4, of uninit] by (elim exE conjE) (rule that)
  have p5: "m_pShaderManager s5 \<noteq> NULL" using s5(2) p4 by simp
  obtain s6 d6 where s6: "RenderWineBottle uninit s5 = Inr s6" "draws s6 = draws s5 @ d6"
      "map sub_draw d6 =
               [(HalfSphere,
                 Some (Mat4Value (modelView (Vec3 0.9 0.3 0.9) 0.0 0.0 180.0 (Vec3 4.0 0.9 (- 2.6)))),
                 SolidColor (Vec4 0.06 0.07 0.06 1.0)),
                (Cylinder False False True,
                 Some (Mat4Value (modelView (Vec3 0.9 4.0 0.9) 0.0 0.0 0.0 (Vec3 4.0 0.9 (- 2.6)))),
                 SolidColor (Vec4 0.06 0.07 0.06 1.0)),
                (HalfSphere,
                 Some (Mat4Value (modelView (Vec3 0.905 0.9 0.905) 0.0 (- 6.0) 0.0
                                    (Vec3 4.0 4.9 (- 2.6)))),
                 SolidColor (Vec4 0.06 0.07 0.06 1.0)),
                (Cylinder False False True,
                 Some (Mat4Value (modelView (Vec3 0.3 2.0 0.3) 0.0 0.0 0.0 (Vec3 4.0 5.6 (- 2.6)))),
                 SolidColor (Vec4 0.06 0.07 0.06 1.0)),
                (Torus,
                 Some (Mat4Value (modelView (Vec3 0.32 0.32 1.5) 90.0 0.0 0.0
                                    (Vec3 (- 1.8) 7.4 (- 2.6)))),
                 SolidColor (Vec4 0.06 0.07 0.06 1.0)),
                (Torus,
                 Some (Mat4Value (modelView (Vec3 0.28 0.28 0.4) 90.0 0.0 0.0
                                    (Vec3 (- 1.8) 7.6 (- 2.6)))),
                 SolidColor (Vec4 0.06 0.07 0.06 1.0))]"
    using RenderWineBottle_run [OF p5, of uninit] by (elim exE conjE) (rule that)
  have scene: "RenderScene uninit s = Inr s6"
    using s1(1) s2(1) s3(1) s4(1) s5(1) s6(1) by (simp add: RenderScene_def)
  have total: "draws s6 = draws s @ d1 @ d2 @ d3 @ d4 @ d5 @ d6"
    using s1(5) s2(5) s3(3) s4(3) s5(3) s6(2) by simp
  show ?thesis
    apply (rule exI [of _ tTable], rule exI [of _ tSide], rule exI [of _ tTop])
    apply (rule exI [of _ s1], rule exI [of _ s2], rule exI [of _ s3])
    apply (rule exI [of _ s4], rule exI [of _ s5], rule exI [of _ s6])
    apply (rule exI [of _ d1], rule exI [of _ d2], rule exI [of _ d3])
    apply (rule exI [of _ d4], rule exI [of _ d5], rule exI [of _ d6])
    apply (intro conjI)
    apply (rule t0, rule ts0, rule tt0)
    apply (rule s1(1), rule s1(5), rule s1(6))
    apply (rule s2(1), rule s2(5), rule s2(6))
    apply (rule s3(1), rule s3(3), rule s3(4))
    apply (rule s4(1), rule s4(3), rule s4(4))
    apply (rule s5(1), rule s5(3), rule s5(4))
    apply (rule s6(1), rule s6(2), rule s6(3))
    apply (rule scene, rule total)
    done
qed

text \<open>A pass on the scene manager as constructed, its five materials defined and no
  texture loaded (the three texture tags resolve to \<open>-1\<close>): the fifteen draw requests
  of the pass, in order, the last six being the wine bottle's.\<close>

theorem RenderScene_order_witness:
  "m_pShaderManager (DefineObjectMaterials (SceneManager_new ShaderManager_object Map.empty))
     \<noteq> NULL
   \<and> registry_ok (DefineObjectMaterials (SceneManager_new ShaderManager_object Map.empty))
   \<and> (\<exists>s5 s6 d6.
         RenderWineBottle
           \<lparr> ambientColor = Vec3 0 0 0, ambientStrength = 0, diffuseColor = Vec3 0 0 0,
             specularColor = Vec3 0 0 0, shininess = 0, material_tag = [] \<rparr> s5 = Inr s6
       \<and> RenderScene
           \<lparr> ambientColor = Vec3 0 0 0, ambientStrength = 0, diffuseColor = Vec3 0 0 0,
             specularColor = Vec3 0 0 0, shininess = 0, material_tag = [] \<rparr>
           (DefineObjectMaterials (SceneManager_new ShaderManager_object Map.empty)) = Inr s6
       \<and> draws s6 = draws s5 @ d6
       \<and> map sub_draw d6 =
               [(HalfSphere,
                 Some (Mat4Value (modelView (Vec3 0.9 0.3 0.9) 0.0 0.0 180.0 (Vec3 4.0 0.9 (- 2.6)))),
                 SolidColor (Vec4 0.06 0.07 0.06 1.0)),
                (Cylinder False False True,
                 Some (Mat4Value (modelView (Vec3 0.9 4.0 0.9) 0.0 0.0 0.0 (Vec3 4.0 0.9 (- 2.6)))),
                 SolidColor (Vec4 0.06 0.07 0.06 1.0)),
                (HalfSphere,
                 Some (Mat4Value (modelView (Vec3 0.905 0.9 0.905) 0.0 (- 6.0) 0.0
                                    (Vec3 4.0 4.9 (- 2.6)))),
                 SolidColor (Vec4 0.06 0.07 0.06 1.0)),
                (Cylinder False False True,
                 Some (Mat4Value (modelView (Vec3 0.3 2.0 0.3) 0.0 0.0 0.0 (Vec3 4.0 5.6 (- 2.6)))),
                 SolidColor (Vec4 0.06 0.07 0.06 1.0)),
                (Torus,
                 Some (Mat4Value (modelView (Vec3 0.32 0.32 1.5) 90.0 0.0 0.0
                                    (Vec3 (- 1.8) 7.4 (- 2.6)))),
                 SolidColor (Vec4 0.06 0.07 0.06 1.0)),
                (Torus,
                 Some (Mat4Value (modelView (Vec3 0.28 0.28 0.4) 90.0 0.0 0.0
                                    (Vec3 (- 1.8) 7.6 (- 2.6)))),
                 SolidColor (Vec4 0.06 0.07 0.06 1.0))]
       \<and> map sub_draw (draws s6) =
               [(Box, Some (Mat4Value (modelView (Vec3 20.0 0.6 8.0) 0.0 0.0 0.0
                                         (Vec3 0.0 0.2 (- 0.9)))),
                 Textured (- 1))]
           @
               [(Plane, Some (Mat4Value (modelView (Vec3 20.0 1.0 20.0) 90.0 0.0 0.0
                                           (Vec3 0.0 15.0 (- 10.0)))),
                 SolidColor (Vec4 0.75 0.75 0.75 1.0))]
           @
               [(Cylinder False False True,
                 Some (Mat4Value (modelView (Vec3 1.1 0.8 0.9) 0.0 0.0 0.0 (Vec3 (- 1.0) 1.4 0.0))),
                 Textured (- 1)),
                (Cylinder True False False,
                 Some (Mat4Value (modelView (Vec3 1.1 0.8 0.9) 0.0 0.0 0.0 (Vec3 (- 1.0) 1.4 0.0))),
                 Textured (- 1))]
           @
               [(Box,
                 Some (Mat4Value (modelView (Vec3 2.2 0.08 1.5) 0.0 (- 12.0) 0.0
                                    (Vec3 (- 1.2) 0.59 0.3))),
                 SolidColor (Vec4 1.0 0.5 0.1 1.0)),
                (Box,
                 Some (Mat4Value (modelView (Vec3 0.08 0.08 1.5) 0.0 (- 12.0) 0.0
                                    (Vec3 (- 2.3) 0.59 0.3))),
                 SolidColor (Vec4 0.9 0.4 0.05 1.0)),
                (Box,
                 Some (Mat4Value (modelView (Vec3 2.15 0.06 1.45) 0.0 (- 12.0) 0.0
                                    (Vec3 (- 1.2) 0.57 0.3))),
                 SolidColor (Vec4 0.95 0.95 0.9 1.0))]
           @
               [(Cylinder False False True,
                 Some (Mat4Value (modelView (Vec3 1.0 2.0 1.0) 0.0 0.0 0.0 (Vec3 6.0 1.5 (- 1.5)))),
                 SolidColor (Vec4 0.7 0.7 0.8 0.3)),
                (Cylinder True False False,
                 Some (Mat4Value (modelView (Vec3 1.0 0.1 1.0) 0.0 0.0 0.0 (Vec3 6.0 0.55 (- 1.5)))),
                 SolidColor (Vec4 0.7 0.7 0.8 0.3))]
           @
               [(HalfSphere,
                 Some (Mat4Value (modelView (Vec3 0.9 0.3 0.9) 0.0 0.0 180.0 (Vec3 4.0 0.9 (- 2.6)))),
                 SolidColor (Vec4 0.06 0.07 0.06 1.0)),
                (Cylinder False False True,
                 Some (Mat4Value (modelView (Vec3 0.9 4.0 0.9) 0.0 0.0 0.0 (Vec3 4.0 0.9 (- 2.6)))),
                 SolidColor (Vec4 0.06 0.07 0.06 1.0)),
                (HalfSphere,
                 Some (Mat4Value (modelView (Vec3 0.905 0.9 0.905) 0.0 (- 6.0) 0.0
                                    (Vec3 4.0 4.9 (- 2.6)))),
                 SolidColor (Vec4 0.06 0.07 0.06 1.0)),
                (Cylinder False False True,
                 Some (Mat4Value (modelView (Vec3 0.3 2.0 0.3) 0.0 0.0 0.0 (Vec3 4.0 5.6 (- 2.6)))),
                 SolidColor (Vec4 0.06 0.07 0.06 1.0)),
                (Torus,
                 Some (Mat4Value (modelView (Vec3 0.32 0.32 1.5) 90.0 0.0 0.0
                                    (Vec3 (- 1.8) 7.4 (- 2.6)))),
                 SolidColor (Vec4 0.06 0.07 0.06 1.0)),
                (Torus,
                 Some (Mat4Value (modelView (Vec3 0.28 0.28 0.4) 90.0 0.0 0.0
                                    (Vec3 (- 1.8) 7.6 (- 2.6)))),
                 SolidColor (Vec4 0.06 0.07 0.06 1.0))])"
proof -
  define s where "s = DefineObjectMaterials (SceneManager_new ShaderManager_object Map.empty)"
  define u :: OBJECT_MATERIAL where "u =
           \<lparr> ambientColor = Vec3 0 0 0, ambientStrength = 0, diffuseColor = Vec3 0 0 0,
             specularColor = Vec3 0 0 0, shininess = 0, material_tag = [] \<rparr>"
  have p: "m_pShaderManager s \<noteq> NULL"
    by (simp add: s_def DefineObjectMaterials_def SceneManager_new_def)
  have r: "registry_ok s"
    by (simp add: s_def DefineObjectMaterials_def SceneManager_new_def registry_ok_def)
  have d: "draws s = []"
    by (simp add: s_def DefineObjectMaterials_def SceneManager_new_def)
  have n: "m_loadedTextures s = 0"
    by (simp add: s_def DefineObjectMaterials_def SceneManager_new_def)
  have none: "\<And>tg. FindTextureSlot s tg = Inr (- 1)"
    using n by (simp add: FindTextureSlot_def FindTextureSlot_loop.simps)
  from RenderScene_order [OF p r, of u]
  obtain tTable tSide tTop s1 s2 s3 s4 s5 s6 d1 d2 d3 d4 d5 d6 where big:
          "FindTextureSlot s ''table'' = Inr tTable
         \<and> FindTextureSlot s ''cheese_wheel_side'' = Inr tSide
         \<and> FindTextureSlot s ''cheese_wheel_top'' = Inr tTop
         \<and> RenderTable u s = Inr s1 \<and> draws s1 = draws s @ d1
         \<and> map sub_draw d1 =
               [(Box, Some (Mat4Value (modelView (Vec3 20.0 0.6 8.0) 0.0 0.0 0.0
                                         (Vec3 0.0 0.2 (- 0.9)))),
                 Textured tTable)]
         \<and> RenderBackdrop s1 = Inr s2 \<and> draws s2 = draws s1 @ d2
         \<and> map sub_draw d2 =
               [(Plane, Some (Mat4Value (modelView (Vec3 20.0 1.0 20.0) 90.0 0.0 0.0
                                           (Vec3 0.0 15.0 (- 10.0)))),
                 SolidColor (Vec4 0.75 0.75 0.75 1.0))]
         \<and> RenderCheeseWheel u s2 = Inr s3 \<and> draws s3 = draws s2 @ d3
         \<and> map sub_draw d3 =
               [(Cylinder False False True,
                 Some (Mat4Value (modelView (Vec3 1.1 0.8 0.9) 0.0 0.0 0.0 (Vec3 (- 1.0) 1.4 0.0))),
                 Textured tSide),
                (Cylinder True False False,
                 Some (Mat4Value (modelView (Vec3 1.1 0.8 0.9) 0.0 0.0 0.0 (Vec3 (- 1.0) 1.4 0.0))),
                 Textured tTop)]
         \<and> RenderBook u s3 = Inr s4 \<and> draws s4 = draws s3 @ d4
         \<and> map sub_draw d4 =
               [(Box,
                 Some (Mat4Value (modelView (Vec3 2.2 0.08 1.5) 0.0 (- 12.0) 0.0
                                    (Vec3 (- 1.2) 0.59 0.3))),
                 SolidColor (Vec4 1.0 0.5 0.1 1.0)),
                (Box,
                 Some (Mat4Value (modelView (Vec3 0.08 0.08 1.5) 0.0 (- 12.0) 0.0
                                    (Vec3 (- 2.3) 0.59 0.3))),
                 SolidColor (Vec4 0.9 0.4 0.05 1.0)),
                (Box,
                 Some (Mat4Value (modelView (Vec3 2.15 0.06 1.45) 0.0 (- 12.0) 0.0
                                    (Vec3 (- 1.2) 0.57 0.3))),
                 SolidColor (Vec4 0.95 0.95 0.9 1.0))]
         \<and> RenderWineGlass u s4 = Inr s5 \<and> draws s5 = draws s4 @ d5
         \<and> map sub_draw d5 =
               [(Cylinder False False True,
                 Some (Mat4Value (modelView (Vec3 1.0 2.0 1.0) 0.0 0.0 0.0 (Vec3 6.0 1.5 (- 1.5)))),
                 SolidColor (Vec4 0.7 0.7 0.8 0.3)),
                (Cylinder True False False,
                 Some (Mat4Value (modelView (Vec3 1.0 0.1 1.0) 0.0 0.0 0.0 (Vec3 6.0 0.55 (- 1.5)))),
                 SolidColor (Vec4 0.7 0.7 0.8 0.3))]
         \<and> RenderWineBottle u s5 = Inr s6 \<and> draws s6 = draws s5 @ d6
         \<and> map sub_draw d6 =
               [(HalfSphere,
                 Some (Mat4Value (modelView (Vec3 0.9 0.3 0.9) 0.0 0.0 180.0 (Vec3 4.0 0.9 (- 2.6)))),
                 SolidColor (Vec4 0.06 0.07 0.06 1.0)),
                (Cylinder False False True,
                 Some (Mat4Value (modelView (Vec3 0.9 4.0 0.9) 0.0 0.0 0.0 (Vec3 4.0 0.9 (- 2.6)))),
                 SolidColor (Vec4 0.06 0.07 0.06 1.0)),
                (HalfSphere,
                 Some (Mat4Value (modelView (Vec3 0.905 0.9 0.905) 0.0 (- 6.0) 0.0
                                    (Vec3 4.0 4.9 (- 2.6)))),
                 SolidColor (Vec4 0.06 0.07 0.06 1.0)),
                (Cylinder False False True,
                 Some (Mat4Value (modelView (Vec3 0.3 2.0 0.3) 0.0 0.0 0.0 (Vec3 4.0 5.6 (- 2.6)))),
                 SolidColor (Vec4 0.06 0.07 0.06 1.0)),
                (Torus,
                 Some (Mat4Value (modelView (Vec3 0.32 0.32 1.5) 90.0 0.0 0.0
                                    (Vec3 (- 1.8) 7.4 (- 2.6)))),
                 SolidColor (Vec4 0.06 0.07 0.06 1.0)),
                (Torus,
                 Some (Mat4Value (modelView (Vec3 0.28 0.28 0.4) 90.0 0.0 0.0
                                    (Vec3 (- 1.8) 7.6 (- 2.6)))),
                 SolidColor (Vec4 0.06 0.07 0.06 1.0))]
         \<and> RenderScene u s = Inr s6
         \<and> draws s6 = draws s @ d1 @ d2 @ d3 @ d4 @ d5 @ d6"
    by (elim exE) (erule that)
  have t1: "FindTextureSlot s ''table'' = Inr tTable"
    using big by (elim conjE)
  have t2: "FindTextureSlot s ''cheese_wheel_side'' = Inr tSide"
    using big by (elim conjE)
  have t3: "FindTextureSlot s ''cheese_wheel_top'' = Inr tTop"
    using big by (elim conjE)
  have m1: "map sub_draw d1 =
               [(Box, Some (Mat4Value (modelView (Vec3 20.0 0.6 8.0) 0.0 0.0 0.0
                                         (Vec3 0.0 0.2 (- 0.9)))),
                 Textured tTable)]"
    using big by (elim conjE)
  have m2: "map sub_draw d2 =
               [(Plane, Some (Mat4Value (modelView (Vec3 20.0 1.0 20.0) 90.0 0.0 0.0
                                           (Vec3 0.0 15.0 (- 10.0)))),
                 SolidColor (Vec4 0.75 0.75 0.75 1.0))]"
    using big by (elim conjE)
  have m3: "map sub_draw d3 =
               [(Cylinder False False True,
                 Some (Mat4Value (modelView (Vec3 1.1 0.8 0.9) 0.0 0.0 0.0 (Vec3 (- 1.0) 1.4 0.0))),
                 Textured tSide),
                (Cylinder True False False,
                 Some (Mat4Value (modelView (Vec3 1.1 0.8 0.9) 0.0 0.0 0.0 (Vec3 (- 1.0) 1.4 0.0))),
                 Textured tTop)]"
    using big by (elim conjE)
  have m4: "map sub_draw d4 =
               [(Box,
                 Some (Mat4Value (modelView (Vec3 2.2 0.08 1.5) 0.0 (- 12.0) 0.0
                                    (Vec3 (- 1.2) 0.59 0.3))),
                 SolidColor (Vec4 1.0 0.5 0.1 1.0)),
                (Box,
                 Some (Mat4Value (modelView (Vec3 0.08 0.08 1.5) 0.0 (- 12.0) 0.0
                                    (Vec3 (- 2.3) 0.59 0.3))),
                 SolidColor (Vec4 0.9 0.4 0.05 1.0)),
                (Box,
                 Some (Mat4Value (modelView (Vec3 2.15 0.06 1.45) 0.0 (- 12.0) 0.0
                                    (Vec3 (- 1.2) 0.57 0.3))),
                 SolidColor (Vec4 0.95 0.95 0.9 1.0))]"
    using big by (elim conjE)
  have m5: "map sub_draw d5 =
               [(Cylinder False False True,
                 Some (Mat4Value (modelView (Vec3 1.0 2.0 1.0) 0.0 0.0 0.0 (Vec3 6.0 1.5 (- 1.5)))),
                 SolidColor (Vec4 0.7 0.7 0.8 0.3)),
                (Cylinder True False False,
                 Some (Mat4Value (modelView (Vec3 1.0 0.1 1.0) 0.0 0.0 0.0 (Vec3 6.0 0.55 (- 1.5)))),
                 SolidColor (Vec4 0.7 0.7 0.8 0.3))]"
    using big by (elim conjE)
  have m6: "map sub_draw d6 =
               [(HalfSphere,
                 Some (Mat4Value (modelView (Vec3 0.9 0.3 0.9) 0.0 0.0 180.0 (Vec3 4.0 0.9 (- 2.6)))),
                 SolidColor (Vec4 0.06 0.07 0.06 1.0)),
                (Cylinder False False True,
                 Some (Mat4Value (modelView (Vec3 0.9 4.0 0.9) 0.0 0.0 0.0 (Vec3 4.0 0.9 (- 2.6)))),
                 SolidColor (Vec4 0.06 0.07 0.06 1.0)),
                (HalfSphere,
                 Some (Mat4Value (modelView (Vec3 0.905 0.9 0.905) 0.0 (- 6.0) 0.0
                                    (Vec3 4.0 4.9 (- 2.6)))),
                 SolidColor (Vec4 0.06 0.07 0.06 1.0)),
                (Cylinder False False True,
                 Some (Mat4Value (modelView (Vec3 0.3 2.0 0.3) 0.0 0.0 0.0 (Vec3 4.0 5.6 (- 2.6)))),
                 SolidColor (Vec4 0.06 0.07 0.06 1.0)),
                (Torus,
                 Some (Mat4Value (modelView (Vec3 0.32 0.32 1.5) 90.0 0.0 0.0
                                    (Vec3 (- 1.8) 7.4 (- 2.6)))),
                 SolidColor (Vec4 0.06 0.07 0.06 1.0)),
                (Torus,
                 Some (Mat4Value (modelView (Vec3 0.28 0.28 0.4) 90.0 0.0 0.0
                                    (Vec3 (- 1.8) 7.6 (- 2.6)))),
                 SolidColor (Vec4 0.06 0.07 0.06 1.0))]"
    using big by (elim conjE)
  have b1: "RenderWineBottle u s5 = Inr s6"
    using big by (elim conjE)
  have b2: "draws s6 = draws s5 @ d6"
    using big by (elim conjE)
  have sc: "RenderScene u s = Inr s6"
    using big by (elim conjE)
  have total: "draws s6 = draws s @ d1 @ d2 @ d3 @ d4 @ d5 @ d6"
    using big by (elim conjE)
  have tv: "tTable = - 1" "tSide = - 1" "tTop = - 1"
    using t1 t2 t3 none by simp_all
  have all: "map sub_draw (draws s6) =
               [(Box, Some (Mat4Value (modelView (Vec3 20.0 0.6 8.0) 0.0 0.0 0.0
                                         (Vec3 0.0 0.2 (- 0.9)))),
                 Textured (- 1))]
           @
               [(Plane, Some (Mat4Value (modelView (Vec3 20.0 1.0 20.0) 90.0 0.0 0.0
                                           (Vec3 0.0 15.0 (- 10.0)))),
                 SolidColor (Vec4 0.75 0.75 0.75 1.0))]
           @
               [(Cylinder False False True,
                 Some (Mat4Value (modelView (Vec3 1.1 0.8 0.9) 0.0 0.0 0.0 (Vec3 (- 1.0) 1.4 0.0))),
                 Textured (- 1)),
                (Cylinder True False False,
                 Some (Mat4Value (modelView (Vec3 1.1 0.8 0.9) 0.0 0.0 0.0 (Vec3 (- 1.0) 1.4 0.0))),
                 Textured (- 1))]
           @
               [(Box,
                 Some (Mat4Value (modelView (Vec3 2.2 0.08 1.5) 0.0 (- 12.0) 0.0
                                    (Vec3 (- 1.2) 0.59 0.3))),
                 SolidColor (Vec4 1.0 0.5 0.1 1.0)),
                (Box,
                 Some (Mat4Value (modelView (Vec3 0.08 0.08 1.5) 0.0 (- 12.0) 0.0
                                    (Vec3 (- 2.3) 0.59 0.3))),
                 SolidColor (Vec4 0.9 0.4 0.05 1.0)),
                (Box,
                 Some (Mat4Value (modelView (Vec3 2.15 0.06 1.45) 0.0 (- 12.0) 0.0
                                    (Vec3 (- 1.2) 0.57 0.3))),
                 SolidColor (Vec4 0.95 0.95 0.9 1.0))]
           @
               [(Cylinder False False True,
                 Some (Mat4Value (modelView (Vec3 1.0 2.0 1.0) 0.0 0.0 0.0 (Vec3 6.0 1.5 (- 1.5)))),
                 SolidColor (Vec4 0.7 0.7 0.8 0.3)),
                (Cylinder True False False,
                 Some (Mat4Value (modelView (Vec3 1.0 0.1 1.0) 0.0 0.0 0.0 (Vec3 6.0 0.55 (- 1.5)))),
                 SolidColor (Vec4 0.7 0.7 0.8 0.3))]
           @
               [(HalfSphere,
                 Some (Mat4Value (modelView (Vec3 0.9 0.3 0.9) 0.0 0.0 180.0 (Vec3 4.0 0.9 (- 2.6)))),
                 SolidColor (Vec4 0.06 0.07 0.06 1.0)),
                (Cylinder False False True,
                 Some (Mat4Value (modelView (Vec3 0.9 4.0 0.9) 0.0 0.0 0.0 (Vec3 4.0 0.9 (- 2.6)))),
                 SolidColor (Vec4 0.06 0.07 0.06 1.0)),
                (HalfSphere,
                 Some (Mat4Value (modelView (Vec3 0.905 0.9 0.905) 0.0 (- 6.0) 0.0
                                    (Vec3 4.0 4.9 (- 2.6)))),
                 SolidColor (Vec4 0.06 0.07 0.06 1.0)),
                (Cylinder False False True,
                 Some (Mat4Value (modelView (Vec3 0.3 2.0 0.3) 0.0 0.0 0.0 (Vec3 4.0 5.6 (- 2.6)))),
                 SolidColor (Vec4 0.06 0.07 0.06 1.0)),
                (Torus,
                 Some (Mat4Value (modelView (Vec3 0.32 0.32 1.5) 90.0 0.0 0.0
                                    (Vec3 (- 1.8) 7.4 (- 2.6)))),
                 SolidColor (Vec4 0.06 0.07 0.06 1.0)),
                (Torus,
                 Some (Mat4Value (modelView (Vec3 0.28 0.28 0.4) 90.0 0.0 0.0
                                    (Vec3 (- 1.8) 7.6 (- 2.6)))),
                 SolidColor (Vec4 0.06 0.07 0.06 1.0))]"
    unfolding total d using m1 m2 m3 m4 m5 m6 tv by (simp del: append_Cons)
  show ?thesis
    unfolding s_def [symmetric] u_def [symmetric]
  proof (intro conjI)
    show "m_pShaderManager s \<noteq> NULL" by (rule p)
    show "registry_ok s" by (rule r)
    show "\<exists>s5 s6 d6.
         RenderWineBottle u s5 = Inr s6
       \<and> RenderScene u s = Inr s6
       \<and> draws s6 = draws s5 @ d6
       \<and> map sub_draw d6 =
               [(HalfSphere,
                 Some (Mat4Value (modelView (Vec3 0.9 0.3 0.9) 0.0 0.0 180.0 (Vec3 4.0 0.9 (- 2.6)))),
                 SolidColor (Vec4 0.06 0.07 0.06 1.0)),
                (Cylinder False False True,
                 Some (Mat4Value (modelView (Vec3 0.9 4.0 0.9) 0.0 0.0 0.0 (Vec3 4.0 0.9 (- 2.6)))),
                 SolidColor (Vec4 0.06 0.07 0.06 1.0)),
                (HalfSphere,
                 Some (Mat4Value (modelView (Vec3 0.905 0.9 0.905) 0.0 (- 6.0) 0.0
                                    (Vec3 4.0 4.9 (- 2.6)))),
                 SolidColor (Vec4 0.06 0.07 0.06 1.0)),
                (Cylinder False False True,
                 Some (Mat4Value (modelView (Vec3 0.3 2.0 0.3) 0.0 0.0 0.0 (Vec3 4.0 5.6 (- 2.6)))),
                 SolidColor (Vec4 0.06 0.07 0.06 1.0)),
                (Torus,
                 Some (Mat4Value (modelView (Vec3 0.32 0.32 1.5) 90.0 0.0 0.0
                                    (Vec3 (- 1.8) 7.4 (- 2.6)))),
                 SolidColor (Vec4 0.06 0.07 0.06 1.0)),
                (Torus,
                 Some (Mat4Value (modelView (Vec3 0.28 0.28 0.4) 90.0 0.0 0.0
                                    (Vec3 (- 1.8) 7.6 (- 2.6)))),
                 SolidColor (Vec4 0.06 0.07 0.06 1.0))]
       \<and> map sub_draw (draws s6) =
               [(Box, Some (Mat4Value (modelView (Vec3 20.0 0.6 8.0) 0.0 0.0 0.0
                                         (Vec3 0.0 0.2 (- 0.9)))),
                 Textured (- 1))]
           @
               [(Plane, Some (Mat4Value (modelView (Vec3 20.0 1.0 20.0) 90.0 0.0 0.0
                                           (Vec3 0.0 15.0 (- 10.0)))),
                 SolidColor (Vec4 0.75 0.75 0.75 1.0))]
           @
               [(Cylinder False False True,
                 Some (Mat4Value (modelView (Vec3 1.1 0.8 0.9) 0.0 0.0 0.0 (Vec3 (- 1.0) 1.4 0.0))),
                 Textured (- 1)),
                (Cylinder True False False,
                 Some (Mat4Value (modelView (Vec3 1.1 0.8 0.9) 0.0 0.0 0.0 (Vec3 (- 1.0) 1.4 0.0))),
                 Textured (- 1))]
           @
               [(Box,
                 Some (Mat4Value (modelView (Vec3 2.2 0.08 1.5) 0.0 (- 12.0) 0.0
                                    (Vec3 (- 1.2) 0.59 0.3))),
                 SolidColor (Vec4 1.0 0.5 0.1 1.0)),
                (Box,
                 Some (Mat4Value (modelView (Vec3 0.08 0.08 1.5) 0.0 (- 12.0) 0.0
                                    (Vec3 (- 2.3) 0.59 0.3))),
                 SolidColor (Vec4 0.9 0.4 0.05 1.0)),
                (Box,
                 Some (Mat4Value (modelView (Vec3 2.15 0.06 1.45) 0.0 (- 12.0) 0.0
                                    (Vec3 (- 1.2) 0.57 0.3))),
                 SolidColor (Vec4 0.95 0.95 0.9 1.0))]
           @
               [(Cylinder False False True,
                 Some (Mat4Value (modelView (Vec3 1.0 2.0 1.0) 0.0 0.0 0.0 (Vec3 6.0 1.5 (- 1.5)))),
                 SolidColor (Vec4 0.7 0.7 0.8 0.3)),
                (Cylinder True False False,
                 Some (Mat4Value (modelView (Vec3 1.0 0.1 1.0) 0.0 0.0 0.0 (Vec3 6.0 0.55 (- 1.5)))),
                 SolidColor (Vec4 0.7 0.7 0.8 0.3))]
           @
               [(HalfSphere,
                 Some (Mat4Value (modelView (Vec3 0.9 0.3 0.9) 0.0 0.0 180.0 (Vec3 4.0 0.9 (- 2.6)))),
                 SolidColor (Vec4 0.06 0.07 0.06 1.0)),
                (Cylinder False False True,
                 Some (Mat4Value (modelView (Vec3 0.9 4.0 0.9) 0.0 0.0 0.0 (Vec3 4.0 0.9 (- 2.6)))),
                 SolidColor (Vec4 0.06 0.07 0.06 1.0)),
                (HalfSphere,
                 Some (Mat4Value (modelView (Vec3 0.905 0.9 0.905) 0.0 (- 6.0) 0.0
                                    (Vec3 4.0 4.9 (- 2.6)))),
                 SolidColor (Vec4 0.06 0.07 0.06 1.0)),
                (Cylinder False False True,
                 Some (Mat4Value (modelView (Vec3 0.3 2.0 0.3) 0.0 0.0 0.0 (Vec3 4.0 5.6 (- 2.6)))),
                 SolidColor (Vec4 0.06 0.07 0.06 1.0)),
                (Torus,
                 Some (Mat4Value (modelView (Vec3 0.32 0.32 1.5) 90.0 0.0 0.0
                                    (Vec3 (- 1.8) 7.4 (- 2.6)))),
                 SolidColor (Vec4 0.06 0.07 0.06 1.0)),
                (Torus,
                 Some (Mat4Value (modelView (Vec3 0.28 0.28 0.4) 90.0 0.0 0.0
                                    (Vec3 (- 1.8) 7.6 (- 2.6)))),
                 SolidColor (Vec4 0.06 0.07 0.06 1.0))]"
      apply (rule exI [of _ s5], rule exI [of _ s6], rule exI [of _ d6])
      apply (intro conjI)
      apply (rule b1, rule sc, rule b2, rule m6, rule all)
      done
  qed
qed

end
